theory Spec2Isabelle
  imports Main "HOL-Library.Word" "HOL-Library.Signed_Division"
begin

unbundle bit_operations_syntax

section \<open>The camera hardware abstraction of libcamera/CameraHardware.cpp\<close>

text \<open>
  The class \<open>CameraHardware\<close> is embedded as a record of its member variables, and each
  member function as a function from the state to a result and the new state. A member
  function runs as one step, and \<open>previewThread\<close> is one iteration of the preview loop.
  Calls that leave the class (into the V4L2 driver wrapper \<open>camera\<close>, the client's
  callbacks, the memory allocator and the preview thread object) are appended, in program
  order, to a trace kept in the state, together with the writes of the two members that
  order the shutdown of the preview loop (\<open>previewStopped\<close> and \<open>mPreviewThread\<close>).

  C \<open>int\<close>, \<open>int32_t\<close>, \<open>status_t\<close> and (on the 32-bit target) \<open>size_t\<close> are 32-bit words:
  \<open>*\<close> wraps around, and the comparisons \<open>ret >= 0\<close> and \<open>ret < 0\<close> read the word as a
  signed number with \<open>sint\<close>.
\<close>

subsection \<open>Values of the platform\<close>

type_synonym int32 = "32 word"

text \<open>
  C's \<open>/\<close> on \<open>int\<close>: the quotient of the signed values, truncated towards zero.
\<close>

definition int32_div :: "int32 \<Rightarrow> int32 \<Rightarrow> int32" where
  "int32_div a b = word_of_int (sint a sdiv sint b)"

text \<open>The clock value \<open>nsecs_t\<close> returned by \<open>systemTime\<close>.\<close>

type_synonym nsecs_t = "64 word"

text \<open>
  Status codes of the platform header \<open>utils/Errors.h\<close>, which is not among the sources:
  success is zero (the source itself treats a driver status \<open>ret != 0\<close> as the failure it
  returns), and \<open>INVALID_OPERATION\<close> is \<open>-ENOSYS\<close>.
\<close>

definition NO_ERROR :: int32 where
  "NO_ERROR = 0"

definition INVALID_OPERATION :: int32 where
  "INVALID_OPERATION = - 38"

text \<open>\<open>printf\<close>'s \<open>%d\<close> on a number that is not negative.\<close>

fun decimal :: "nat \<Rightarrow> string" where
  "decimal n =
     (if n < 10 then [''0123456789'' ! n]
      else decimal (n div 10) @ [''0123456789'' ! (n mod 10)])"

text \<open>
  The message kinds \<open>CAMERA_MSG_*\<close> are bit masks of a platform header that is not among
  the sources. Their values play no role in what is proved, so they are a parameter of the
  functions that test them.
\<close>

record camera_msg =
  CAMERA_MSG_SHUTTER :: int32
  CAMERA_MSG_FOCUS :: int32
  CAMERA_MSG_PREVIEW_FRAME :: int32
  CAMERA_MSG_VIDEO_FRAME :: int32
  CAMERA_MSG_COMPRESSED_IMAGE :: int32

text \<open>
  The masks as the Android platform of the time declares them; used where a statement is
  evaluated on a concrete input.
\<close>

definition android_msg :: camera_msg where
  "android_msg =
     \<lparr>CAMERA_MSG_SHUTTER = 0x002, CAMERA_MSG_FOCUS = 0x004,
      CAMERA_MSG_PREVIEW_FRAME = 0x010, CAMERA_MSG_VIDEO_FRAME = 0x020,
      CAMERA_MSG_COMPRESSED_IMAGE = 0x100\<rparr>"

subsection \<open>Shared memory\<close>

text \<open>
  \<open>new MemoryHeapBase(size)\<close> and \<open>new MemoryBase(heap, offset, size)\<close>. A strong pointer
  \<open>sp<T>\<close> is an option: \<open>None\<close> is the null pointer.
\<close>

datatype MemoryHeapBase = MemoryHeapBase (heapSize: int32)

datatype IMemory = MemoryBase (heap: MemoryHeapBase) (offset: int32) (memSize: int32)

subsection \<open>The parameter container\<close>

text \<open>
  \<open>CameraParameters\<close> is the platform's key-value container, outside the sources. It is
  embedded by the interface the class uses: each typed getter returns what the matching
  typed setter stored, and \<open>set(key, value)\<close> stores a string under a key that no typed
  accessor reads. The two format getters return a pointer to a C string: \<open>None\<close> is the
  null pointer they return where the container holds no such entry.
\<close>

datatype param_key =
    KEY_SUPPORTED_PREVIEW_SIZES
  | KEY_VIDEO_FRAME_FORMAT
  | KEY_SUPPORTED_PICTURE_SIZES
  | KEY_SUPPORTED_PREVIEW_FPS_RANGE

record CameraParameters =
  previewSize :: "int32 \<times> int32"
  previewFrameRate :: int32
  previewFormat :: "string option"
  pictureSize :: "int32 \<times> int32"
  pictureFormat :: "string option"
  entries :: "param_key \<rightharpoonup> string"

definition getPreviewSize :: "CameraParameters \<Rightarrow> int32 \<times> int32" where
  "getPreviewSize p = previewSize p"

definition setPreviewSize :: "int32 \<Rightarrow> int32 \<Rightarrow> CameraParameters \<Rightarrow> CameraParameters" where
  "setPreviewSize w h p = p\<lparr>previewSize := (w, h)\<rparr>"

definition getPictureSize :: "CameraParameters \<Rightarrow> int32 \<times> int32" where
  "getPictureSize p = pictureSize p"

definition setPictureSize :: "int32 \<Rightarrow> int32 \<Rightarrow> CameraParameters \<Rightarrow> CameraParameters" where
  "setPictureSize w h p = p\<lparr>pictureSize := (w, h)\<rparr>"

definition getPreviewFrameRate :: "CameraParameters \<Rightarrow> int32" where
  "getPreviewFrameRate p = previewFrameRate p"

definition setPreviewFrameRate :: "int32 \<Rightarrow> CameraParameters \<Rightarrow> CameraParameters" where
  "setPreviewFrameRate fps p = p\<lparr>previewFrameRate := fps\<rparr>"

definition getPreviewFormat :: "CameraParameters \<Rightarrow> string option" where
  "getPreviewFormat p = previewFormat p"

definition setPreviewFormat :: "string \<Rightarrow> CameraParameters \<Rightarrow> CameraParameters" where
  "setPreviewFormat f p = p\<lparr>previewFormat := Some f\<rparr>"

definition getPictureFormat :: "CameraParameters \<Rightarrow> string option" where
  "getPictureFormat p = pictureFormat p"

definition setPictureFormat :: "string \<Rightarrow> CameraParameters \<Rightarrow> CameraParameters" where
  "setPictureFormat f p = p\<lparr>pictureFormat := Some f\<rparr>"

definition set_entry :: "param_key \<Rightarrow> string \<Rightarrow> CameraParameters \<Rightarrow> CameraParameters" where
  "set_entry k v p = p\<lparr>entries := (entries p)(k \<mapsto> v)\<rparr>"

definition get_entry :: "param_key \<Rightarrow> CameraParameters \<Rightarrow> string option" where
  "get_entry k p = entries p k"

text \<open>
  A default-constructed container: the typed getters of a key that was never set give
  \<open>-1\<close> for numbers and the null pointer for the two formats.
\<close>

definition CameraParameters_new :: CameraParameters where
  "CameraParameters_new =
     \<lparr>previewSize = (- 1, - 1), previewFrameRate = - 1, previewFormat = None,
      pictureSize = (- 1, - 1), pictureFormat = None, entries = Map.empty\<rparr>"

subsection \<open>The driver wrapper and the trace of calls\<close>

text \<open>
  The member \<open>camera\<close> (class \<open>V4L2Camera\<close>) is outside the sources. Its behaviour is a
  parameter: a record of operations over a driver state of any type \<open>'c\<close>, so that the
  result of a call may depend on everything the driver has been told before.
\<close>

record 'c V4L2Camera =
  Open :: "'c \<Rightarrow> string \<Rightarrow> int32 \<Rightarrow> int32 \<Rightarrow> int32 \<times> 'c"
  Init :: "'c \<Rightarrow> int32 \<times> 'c"
  StartStreaming :: "'c \<Rightarrow> int32 \<times> 'c"
  GrabPreviewFrame :: "'c \<Rightarrow> 'c"
  GrabJpegFrame :: "'c \<Rightarrow> IMemory option \<times> 'c"
  Uninit :: "'c \<Rightarrow> 'c"
  StopStreaming :: "'c \<Rightarrow> 'c"
  Close :: "'c \<Rightarrow> 'c"

datatype event =
    Cam_Open string int32 int32
  | Cam_Init
  | Cam_StartStreaming
  | Cam_GrabPreviewFrame
  | Cam_GrabJpegFrame
  | Cam_Uninit
  | Cam_StopStreaming
  | Cam_Close
  | New_MemoryHeapBase int32
  | Set_previewStopped bool
  | New_PreviewThread
  | RequestExitAndWait
  | Clear_mPreviewThread
  | Yuyv422_to_yuv420sp int32 int32
  | NotifyFn int32 int32 int32
  | DataFn int32 "IMemory option"
  | TimestampFn nsecs_t int32 "IMemory option"

subsection \<open>The members of the class\<close>

text \<open>
  \<open>mPreviewThread\<close> is \<open>True\<close> when the strong pointer holds a thread object
  (\<open>mPreviewThread != 0\<close>). Members that no function below reads are left out. The three
  callback pointers and \<open>mUser\<close> are among them: a call through a pointer is an event of
  the trace, with the message kind and the payload it is given, and the client is taken to
  have installed its callbacks before it enables a message kind.
\<close>

record 'c CameraHardware =
  mCameraId :: int32
  mParameters :: CameraParameters
  mHeap :: "MemoryHeapBase option"
  mBuffer :: "IMemory option"
  mRecordHeap :: "MemoryHeapBase option"
  mRecordBuffer :: "IMemory option"
  mPreviewFrameSize :: int32
  mRecordRunning :: bool
  previewStopped :: bool
  mMsgEnabled :: int32
  mPreviewThread :: bool
  camera :: 'c
  trace :: "event list"

definition emit :: "event \<Rightarrow> 'c CameraHardware \<Rightarrow> 'c CameraHardware" where
  "emit e s = s\<lparr>trace := trace s @ [e]\<rparr>"

text \<open>The events a call added to the trace: those of \<open>s'\<close> after the ones of \<open>s\<close>.\<close>

definition emitted :: "'c CameraHardware \<Rightarrow> 'c CameraHardware \<Rightarrow> event list" where
  "emitted s s' = drop (length (trace s)) (trace s')"

subsection \<open>Message kinds\<close>

definition enableMsgType :: "int32 \<Rightarrow> 'c CameraHardware \<Rightarrow> 'c CameraHardware" where
  "enableMsgType msgType s = s\<lparr>mMsgEnabled := mMsgEnabled s OR msgType\<rparr>"

definition disableMsgType :: "int32 \<Rightarrow> 'c CameraHardware \<Rightarrow> 'c CameraHardware" where
  "disableMsgType msgType s = s\<lparr>mMsgEnabled := mMsgEnabled s AND NOT msgType\<rparr>"

definition msgTypeEnabled :: "int32 \<Rightarrow> 'c CameraHardware \<Rightarrow> bool" where
  "msgTypeEnabled msgType s = (mMsgEnabled s AND msgType \<noteq> 0)"

subsection \<open>Calls into the driver wrapper\<close>

text \<open>
  Each call advances the driver state held in \<open>camera\<close> and is written to the trace. The
  pixel format passed to \<open>Open\<close> is the constant \<open>PIXEL_FORMAT\<close> at both call sites and is
  not carried along.
\<close>

definition camera_Open ::
  "'c V4L2Camera \<Rightarrow> string \<Rightarrow> int32 \<Rightarrow> int32 \<Rightarrow> 'c CameraHardware \<Rightarrow> int32 \<times> 'c CameraHardware" where
  "camera_Open cam node width height s =
     (let (ret, c) = Open cam (camera s) node width height
      in (ret, emit (Cam_Open node width height) (s\<lparr>camera := c\<rparr>)))"

definition camera_Init :: "'c V4L2Camera \<Rightarrow> 'c CameraHardware \<Rightarrow> int32 \<times> 'c CameraHardware" where
  "camera_Init cam s =
     (let (ret, c) = Init cam (camera s) in (ret, emit Cam_Init (s\<lparr>camera := c\<rparr>)))"

definition camera_StartStreaming ::
  "'c V4L2Camera \<Rightarrow> 'c CameraHardware \<Rightarrow> int32 \<times> 'c CameraHardware" where
  "camera_StartStreaming cam s =
     (let (ret, c) = StartStreaming cam (camera s)
      in (ret, emit Cam_StartStreaming (s\<lparr>camera := c\<rparr>)))"

definition camera_GrabPreviewFrame :: "'c V4L2Camera \<Rightarrow> 'c CameraHardware \<Rightarrow> 'c CameraHardware" where
  "camera_GrabPreviewFrame cam s =
     emit Cam_GrabPreviewFrame (s\<lparr>camera := GrabPreviewFrame cam (camera s)\<rparr>)"

definition camera_GrabJpegFrame ::
  "'c V4L2Camera \<Rightarrow> 'c CameraHardware \<Rightarrow> IMemory option \<times> 'c CameraHardware" where
  "camera_GrabJpegFrame cam s =
     (let (jpeg, c) = GrabJpegFrame cam (camera s)
      in (jpeg, emit Cam_GrabJpegFrame (s\<lparr>camera := c\<rparr>)))"

definition camera_Uninit :: "'c V4L2Camera \<Rightarrow> 'c CameraHardware \<Rightarrow> 'c CameraHardware" where
  "camera_Uninit cam s = emit Cam_Uninit (s\<lparr>camera := Uninit cam (camera s)\<rparr>)"

definition camera_StopStreaming :: "'c V4L2Camera \<Rightarrow> 'c CameraHardware \<Rightarrow> 'c CameraHardware" where
  "camera_StopStreaming cam s =
     emit Cam_StopStreaming (s\<lparr>camera := StopStreaming cam (camera s)\<rparr>)"

definition camera_Close :: "'c V4L2Camera \<Rightarrow> 'c CameraHardware \<Rightarrow> 'c CameraHardware" where
  "camera_Close cam s = emit Cam_Close (s\<lparr>camera := Close cam (camera s)\<rparr>)"

subsection \<open>Probing the device nodes\<close>

text \<open>\<open>sprintf(devnode, "/dev/video%d", i)\<close>.\<close>

definition devnode :: "nat \<Rightarrow> string" where
  "devnode i = ''/dev/video'' @ decimal i"

text \<open>
  The loop \<open>for (i = 0; i < 10; i++) { ret = camera.Open(devnode, ...); if (ret >= 0) break; }\<close>
  of \<open>startPreview\<close> and \<open>pictureThread\<close>, entered at an \<open>i\<close> below ten (it starts at
  zero, so the body runs at least once and \<open>ret\<close> is assigned when the loop is left).
\<close>

function open_loop ::
  "'c V4L2Camera \<Rightarrow> int32 \<Rightarrow> int32 \<Rightarrow> nat \<Rightarrow> 'c CameraHardware \<Rightarrow> int32 \<times> 'c CameraHardware" where
  "open_loop cam width height i s =
     (let (ret, s') = camera_Open cam (devnode i) width height s
      in if 0 \<le> sint ret then (ret, s')
         else if Suc i < 10 then open_loop cam width height (Suc i) s'
         else (ret, s'))"
  by pat_completeness auto
termination
  by (relation "measure (\<lambda>(cam, width, height, i, s). 10 - i)") auto

subsection \<open>Preview\<close>

text \<open>One iteration of the preview thread's loop; \<open>timeStamp\<close> is what \<open>systemTime\<close> returns.\<close>

definition previewThread ::
  "camera_msg \<Rightarrow> 'c V4L2Camera \<Rightarrow> nsecs_t \<Rightarrow> 'c CameraHardware \<Rightarrow> int32 \<times> 'c CameraHardware" where
  "previewThread K cam timeStamp s =
     (let (width, height) = getPreviewSize (mParameters s)
      in if \<not> previewStopped s then
           let s = camera_GrabPreviewFrame cam s
           in if mMsgEnabled s AND CAMERA_MSG_PREVIEW_FRAME K \<noteq> 0 \<or>
                 mMsgEnabled s AND CAMERA_MSG_VIDEO_FRAME K \<noteq> 0 then
                let s =
                  (if mMsgEnabled s AND CAMERA_MSG_VIDEO_FRAME K \<noteq> 0 \<and> mRecordRunning s then
                     let s = emit (Yuyv422_to_yuv420sp width height) s
                     in emit (TimestampFn timeStamp (CAMERA_MSG_VIDEO_FRAME K) (mRecordBuffer s)) s
                   else s)
                in (NO_ERROR, emit (DataFn (CAMERA_MSG_PREVIEW_FRAME K) (mBuffer s)) s)
              else (NO_ERROR, s)
         else (NO_ERROR, s))"

definition startPreview :: "'c V4L2Camera \<Rightarrow> 'c CameraHardware \<Rightarrow> int32 \<times> 'c CameraHardware" where
  "startPreview cam s =
     (if mPreviewThread s then (INVALID_OPERATION, s)
      else
        let (width, height) = getPreviewSize (mParameters s);
            (ret, s) = open_loop cam width height 0 s
        in if sint ret < 0 then (- 1, s)
           else
             let s = s\<lparr>mPreviewFrameSize := width * height * 2\<rparr>;
                 heap = MemoryHeapBase (mPreviewFrameSize s);
                 s = emit (New_MemoryHeapBase (mPreviewFrameSize s)) (s\<lparr>mHeap := Some heap\<rparr>);
                 s = s\<lparr>mBuffer := Some (MemoryBase heap 0 (mPreviewFrameSize s))\<rparr>;
                 (ret, s) = camera_Init cam s
             in if ret \<noteq> 0 then (ret, camera_Close cam s)
                else
                  let (ret, s) = camera_StartStreaming cam s
                  in if ret \<noteq> 0 then (ret, camera_Close cam (camera_Uninit cam s))
                     else
                       let s = emit (Set_previewStopped False) (s\<lparr>previewStopped := False\<rparr>);
                           s = emit New_PreviewThread (s\<lparr>mPreviewThread := True\<rparr>)
                       in (NO_ERROR, s))"

definition stopPreview :: "'c V4L2Camera \<Rightarrow> 'c CameraHardware \<Rightarrow> 'c CameraHardware" where
  "stopPreview cam s =
     (let s = emit (Set_previewStopped True) (s\<lparr>previewStopped := True\<rparr>);
          previewThread = mPreviewThread s;
          s = (if previewThread then emit RequestExitAndWait s else s);
          s = (if mPreviewThread s then
                 camera_Close cam (camera_StopStreaming cam (camera_Uninit cam s))
               else s)
      in emit Clear_mPreviewThread (s\<lparr>mPreviewThread := False\<rparr>))"

definition previewEnabled :: "'c CameraHardware \<Rightarrow> bool" where
  "previewEnabled s = mPreviewThread s"

subsection \<open>Recording\<close>

definition startRecording :: "'c CameraHardware \<Rightarrow> int32 \<times> 'c CameraHardware" where
  "startRecording s =
     (let heap = MemoryHeapBase (int32_div (mPreviewFrameSize s * 3) 4);
          s = emit (New_MemoryHeapBase (int32_div (mPreviewFrameSize s * 3) 4)) (s\<lparr>mRecordHeap := Some heap\<rparr>);
          s = s\<lparr>mRecordBuffer := Some (MemoryBase heap 0 (int32_div (mPreviewFrameSize s * 3) 4))\<rparr>;
          s = s\<lparr>mRecordRunning := True\<rparr>
      in (NO_ERROR, s))"

definition stopRecording :: "'c CameraHardware \<Rightarrow> 'c CameraHardware" where
  "stopRecording s = s\<lparr>mRecordRunning := False\<rparr>"

definition recordingEnabled :: "'c CameraHardware \<Rightarrow> bool" where
  "recordingEnabled s = mRecordRunning s"

subsection \<open>Still pictures\<close>

definition pictureThread ::
  "camera_msg \<Rightarrow> 'c V4L2Camera \<Rightarrow> 'c CameraHardware \<Rightarrow> int32 \<times> 'c CameraHardware" where
  "pictureThread K cam s =
     (let s = (if mMsgEnabled s AND CAMERA_MSG_SHUTTER K \<noteq> 0
               then emit (NotifyFn (CAMERA_MSG_SHUTTER K) 0 0) s else s);
          (w, h) = getPictureSize (mParameters s);
          (width, height) = getPictureSize (mParameters s);
          (width, height) = getPreviewSize (mParameters s);
          (ret, s) = open_loop cam width height 0 s
      in if sint ret < 0 then (- 1, s)
         else
           let (ret, s) = camera_Init cam s;
               (ret, s) = camera_StartStreaming cam s;
               s = (if mMsgEnabled s AND CAMERA_MSG_COMPRESSED_IMAGE K \<noteq> 0 then
                      let (jpeg, s) = camera_GrabJpegFrame cam s
                      in emit (DataFn (CAMERA_MSG_COMPRESSED_IMAGE K) jpeg) s
                    else s);
               s = camera_Uninit cam s;
               s = camera_StopStreaming cam s;
               s = camera_Close cam s
           in (NO_ERROR, s))"

definition takePicture ::
  "camera_msg \<Rightarrow> 'c V4L2Camera \<Rightarrow> 'c CameraHardware \<Rightarrow> int32 \<times> 'c CameraHardware" where
  "takePicture K cam s =
     (let s = stopPreview cam s;
          (ret, s) = pictureThread K cam s
      in (NO_ERROR, s))"

subsection \<open>Parameters\<close>

definition supportedFpsRanges :: string where
  "supportedFpsRanges =
     ''(8000,8000),(8000,10000),(10000,10000),(8000,15000),(15000,15000),(8000,20000),(20000,20000),(24000,24000),(25000,25000),(8000,30000),(30000,30000)''"

text \<open>
  \<open>strcmp(a, b) != 0\<close> on two C strings is their inequality. The source hands the pointer
  of each format getter to \<open>strcmp\<close> without a test; on the null pointer the call faults
  and \<open>setParameters\<close> returns no status, which is the result \<open>None\<close>. The picture format
  is read only when the preview format is the supported one.
\<close>

definition setParameters ::
  "CameraParameters \<Rightarrow> 'c CameraHardware \<Rightarrow> (int32 \<times> 'c CameraHardware) option" where
  "setParameters params s =
     (case getPreviewFormat params of
        None \<Rightarrow> None
      | Some previewFmt \<Rightarrow>
          if previewFmt \<noteq> ''yuv422sp'' then Some (- 1, s)
          else
            (case getPictureFormat params of
               None \<Rightarrow> None
             | Some pictureFmt \<Rightarrow>
                 if pictureFmt \<noteq> ''jpeg'' then Some (- 1, s)
                 else
                   let s = s\<lparr>mParameters := params\<rparr>;
                       (w, h) = getPictureSize params;
                       s = s\<lparr>mParameters := setPictureSize w h (mParameters s)\<rparr>;
                       (w, h) = getPreviewSize params;
                       s = s\<lparr>mParameters := setPreviewSize w h (mParameters s)\<rparr>;
                       framerate = getPreviewFrameRate params;
                       s = s\<lparr>mParameters := params\<rparr>;
                       s = s\<lparr>mParameters := setPreviewSize w h (mParameters s)\<rparr>;
                       s = s\<lparr>mParameters :=
                              set_entry KEY_SUPPORTED_PREVIEW_FPS_RANGE supportedFpsRanges
                                (mParameters s)\<rparr>
                   in Some (NO_ERROR, s)))"

definition getParameters :: "'c CameraHardware \<Rightarrow> CameraParameters" where
  "getParameters s = (let params = mParameters s in params)"

subsection \<open>Construction\<close>

definition MIN_WIDTH :: int32 where
  "MIN_WIDTH = 320"

definition MIN_HEIGHT :: int32 where
  "MIN_HEIGHT = 240"

definition CAM_SIZE :: string where
  "CAM_SIZE = ''320x240''"

text \<open>
  \<open>initDefaultParameters\<close> sets both formats of \<open>p\<close> before it calls \<open>setParameters\<close>, so
  the call returns a status, which is only logged; the branch for \<open>None\<close> is never taken
  (\<open>initDefaultParameters_eq\<close> below) and is there because every function is total.
\<close>

definition initDefaultParameters :: "'c CameraHardware \<Rightarrow> 'c CameraHardware" where
  "initDefaultParameters s =
     (let p = CameraParameters_new;
          p = setPreviewSize MIN_WIDTH MIN_HEIGHT p;
          p = setPreviewFrameRate 30 p;
          p = setPreviewFormat ''yuv422sp'' p;
          p = set_entry KEY_SUPPORTED_PREVIEW_SIZES CAM_SIZE p;
          p = set_entry KEY_SUPPORTED_PREVIEW_SIZES ''640x480'' p;
          p = set_entry KEY_VIDEO_FRAME_FORMAT ''yuv420sp'' p;
          p = setPictureSize MIN_WIDTH MIN_HEIGHT p;
          p = setPictureFormat ''jpeg'' p;
          p = set_entry KEY_SUPPORTED_PICTURE_SIZES CAM_SIZE p
      in case setParameters p s of Some (status, s) \<Rightarrow> s | None \<Rightarrow> s)"

text \<open>
  The constructor: the member initialisers, then \<open>initDefaultParameters\<close>. \<open>c\<close> is the
  state of the freshly constructed driver wrapper.
\<close>

definition CameraHardware_new :: "int32 \<Rightarrow> 'c \<Rightarrow> 'c CameraHardware" where
  "CameraHardware_new cameraId c =
     initDefaultParameters
       \<lparr>mCameraId = cameraId, mParameters = CameraParameters_new, mHeap = None, mBuffer = None,
        mRecordHeap = None, mRecordBuffer = None, mPreviewFrameSize = 0,
        mRecordRunning = False, previewStopped = True, mMsgEnabled = 0,
        mPreviewThread = False, camera = c, trace = []\<rparr>"

subsection \<open>Reading the trace\<close>

text \<open>The calls of the client's callbacks, and the allocations of a memory region.\<close>

fun is_callback :: "event \<Rightarrow> bool" where
  "is_callback (NotifyFn msg ext1 ext2) = True"
| "is_callback (DataFn msg mem) = True"
| "is_callback (TimestampFn timeStamp msg mem) = True"
| "is_callback e = False"

fun is_alloc :: "event \<Rightarrow> bool" where
  "is_alloc (New_MemoryHeapBase n) = True"
| "is_alloc e = False"

text \<open>
  What the driver answers to the probing loop: \<open>probed cam width height c n\<close> is the driver
  state after the nodes \<open>0, \<dots>, n - 1\<close> have been probed in this order from the state \<open>c\<close>,
  and \<open>probe_result cam width height c n\<close> is the status of the probe of node \<open>n\<close> that
  follows them.
\<close>

primrec probed :: "'c V4L2Camera \<Rightarrow> int32 \<Rightarrow> int32 \<Rightarrow> 'c \<Rightarrow> nat \<Rightarrow> 'c" where
  "probed cam width height c 0 = c"
| "probed cam width height c (Suc n) =
     snd (Open cam (probed cam width height c n) (devnode n) width height)"

definition probe_result :: "'c V4L2Camera \<Rightarrow> int32 \<Rightarrow> int32 \<Rightarrow> 'c \<Rightarrow> nat \<Rightarrow> int32" where
  "probe_result cam width height c n =
     fst (Open cam (probed cam width height c n) (devnode n) width height)"

text \<open>
  The pointers that an iteration of the preview loop dereferences: the preview heap while
  a preview thread is held, the record heap while recording is on.
\<close>

definition heaps_allocated :: "'c CameraHardware \<Rightarrow> bool" where
  "heaps_allocated s \<longleftrightarrow>
     (mPreviewThread s \<longrightarrow> mHeap s \<noteq> None \<and> mBuffer s \<noteq> None) \<and>
     (mRecordRunning s \<longrightarrow> mRecordHeap s \<noteq> None \<and> mRecordBuffer s \<noteq> None)"

subsection \<open>The frame-rate ranges as the specification lists them\<close>

text \<open>
  The specification speaks of a list of eleven (min, max) pairs in thousandths of frames
  per second. The source has one string; \<open>show_fps_ranges\<close> writes a list of pairs the way
  that string is written, so that the two can be compared.
\<close>

definition show_fps_range :: "nat \<times> nat \<Rightarrow> string" where
  "show_fps_range r = ''('' @ decimal (fst r) @ '','' @ decimal (snd r) @ '')''"

fun show_fps_ranges :: "(nat \<times> nat) list \<Rightarrow> string" where
  "show_fps_ranges [] = []"
| "show_fps_ranges [r] = show_fps_range r"
| "show_fps_ranges (r # rs) = show_fps_range r @ '','' @ show_fps_ranges rs"

definition spec_fps_ranges :: "(nat \<times> nat) list" where
  "spec_fps_ranges =
     [(8000, 8000), (8000, 10000), (10000, 10000), (8000, 15000), (15000, 15000),
      (8000, 20000), (20000, 20000), (24000, 24000), (25000, 25000), (8000, 30000),
      (30000, 30000)]"

subsection \<open>Concrete drivers and states\<close>

text \<open>
  Two drivers on which statements are evaluated: one on which no device node opens, and one
  whose state counts the calls it has received and on which \<open>/dev/video2\<close> is the only
  node that opens.
\<close>

definition dead_camera :: "unit V4L2Camera" where
  "dead_camera =
     \<lparr>Open = (\<lambda>c devnode width height. (- 1, c)), Init = (\<lambda>c. (0, c)),
      StartStreaming = (\<lambda>c. (0, c)), GrabPreviewFrame = (\<lambda>c. c),
      GrabJpegFrame = (\<lambda>c. (None, c)), Uninit = (\<lambda>c. c), StopStreaming = (\<lambda>c. c),
      Close = (\<lambda>c. c)\<rparr>"

definition test_camera :: "nat V4L2Camera" where
  "test_camera =
     \<lparr>Open = (\<lambda>c devnode width height. (if devnode = ''/dev/video2'' then 3 else - 1, Suc c)),
      Init = (\<lambda>c. (0, Suc c)),
      StartStreaming = (\<lambda>c. (0, Suc c)), GrabPreviewFrame = (\<lambda>c. Suc c),
      GrabJpegFrame = (\<lambda>c. (Some (MemoryBase (MemoryHeapBase 4096) 0 4096), Suc c)),
      Uninit = (\<lambda>c. Suc c), StopStreaming = (\<lambda>c. Suc c),
      Close = (\<lambda>c. Suc c)\<rparr>"

text \<open>A driver on which every node opens and \<open>Init\<close> fails.\<close>

definition init_fails_camera :: "nat V4L2Camera" where
  "init_fails_camera =
     \<lparr>Open = (\<lambda>c node width height. (3, Suc c)),
      Init = (\<lambda>c. (- 5, Suc c)),
      StartStreaming = (\<lambda>c. (0, Suc c)), GrabPreviewFrame = (\<lambda>c. Suc c),
      GrabJpegFrame = (\<lambda>c. (None, Suc c)),
      Uninit = (\<lambda>c. Suc c), StopStreaming = (\<lambda>c. Suc c),
      Close = (\<lambda>c. Suc c)\<rparr>"

text \<open>A fresh object on which \<open>startPreview\<close> has succeeded.\<close>

definition previewing :: "nat CameraHardware" where
  "previewing = snd (startPreview test_camera (CameraHardware_new 0 0))"

text \<open>
  The same object after \<open>startRecording\<close> with the video-frame kind enabled; an object on
  which \<open>startRecording\<close> was called before \<open>startPreview\<close>; and a fresh object
  configured for pictures of 640 by 480 with the shutter and compressed-image kinds
  enabled.
\<close>

definition recording :: "nat CameraHardware" where
  "recording =
     enableMsgType (CAMERA_MSG_VIDEO_FRAME android_msg) (snd (startRecording previewing))"

definition recording_first :: "nat CameraHardware" where
  "recording_first =
     enableMsgType (CAMERA_MSG_VIDEO_FRAME android_msg)
       (snd (startPreview test_camera (snd (startRecording (CameraHardware_new 0 0)))))"

text \<open>A fresh object on which \<open>startPreview\<close> has failed at \<open>Init\<close>.\<close>

definition init_failed :: "nat CameraHardware" where
  "init_failed = snd (startPreview init_fails_camera (CameraHardware_new 0 0))"

definition picture_640 :: "nat CameraHardware" where
  "picture_640 =
     (case setParameters (setPictureSize 640 480 (getParameters (CameraHardware_new 0 (0::nat))))
             (CameraHardware_new 0 0) of
        Some (status, s) \<Rightarrow>
          enableMsgType
            (CAMERA_MSG_SHUTTER android_msg OR CAMERA_MSG_COMPRESSED_IMAGE android_msg) s
      | None \<Rightarrow> CameraHardware_new 0 0)"

section \<open>Evaluation\<close>

declare open_loop.simps [simp del]

declare decimal.simps [simp del]

lemmas params_defs = getPreviewSize_def setPreviewSize_def getPictureSize_def setPictureSize_def
  getPreviewFrameRate_def setPreviewFrameRate_def getPreviewFormat_def setPreviewFormat_def
  getPictureFormat_def setPictureFormat_def set_entry_def get_entry_def CameraParameters_new_def

lemmas camera_defs = camera_Open_def camera_Init_def camera_StartStreaming_def
  camera_GrabPreviewFrame_def camera_GrabJpegFrame_def camera_Uninit_def
  camera_StopStreaming_def camera_Close_def emit_def

lemmas eval_defs = open_loop.simps decimal.simps camera_defs devnode_def params_defs
  android_msg_def NO_ERROR_def INVALID_OPERATION_def Let_def

text \<open>
  \<open>initDefaultParameters\<close> stores the default parameters, so its call of \<open>setParameters\<close>
  has returned a status.
\<close>

lemma initDefaultParameters_eq:
  "initDefaultParameters s =
     s\<lparr>mParameters :=
        \<lparr>previewSize = (320, 240), previewFrameRate = 30, previewFormat = Some ''yuv422sp'',
         pictureSize = (320, 240), pictureFormat = Some ''jpeg'',
         entries =
           [KEY_SUPPORTED_PREVIEW_SIZES \<mapsto> ''640x480'',
            KEY_VIDEO_FRAME_FORMAT \<mapsto> ''yuv420sp'',
            KEY_SUPPORTED_PICTURE_SIZES \<mapsto> ''320x240'',
            KEY_SUPPORTED_PREVIEW_FPS_RANGE \<mapsto> supportedFpsRanges]\<rparr>\<rparr>"
  by (simp add: initDefaultParameters_def setParameters_def params_defs MIN_WIDTH_def
      MIN_HEIGHT_def CAM_SIZE_def)

text \<open>The state the constructor leaves, and the concrete states.\<close>

lemma CameraHardware_new_eq:
  "CameraHardware_new cameraId c =
     \<lparr>mCameraId = cameraId,
      mParameters =
        \<lparr>previewSize = (320, 240), previewFrameRate = 30, previewFormat = Some ''yuv422sp'',
         pictureSize = (320, 240), pictureFormat = Some ''jpeg'',
         entries =
           [KEY_SUPPORTED_PREVIEW_SIZES \<mapsto> ''640x480'',
            KEY_VIDEO_FRAME_FORMAT \<mapsto> ''yuv420sp'',
            KEY_SUPPORTED_PICTURE_SIZES \<mapsto> ''320x240'',
            KEY_SUPPORTED_PREVIEW_FPS_RANGE \<mapsto> supportedFpsRanges]\<rparr>,
      mHeap = None, mBuffer = None, mRecordHeap = None, mRecordBuffer = None,
      mPreviewFrameSize = 0, mRecordRunning = False, previewStopped = True, mMsgEnabled = 0,
      mPreviewThread = False, camera = c, trace = []\<rparr>"
  by (simp add: CameraHardware_new_def initDefaultParameters_def setParameters_def params_defs
      MIN_WIDTH_def MIN_HEIGHT_def CAM_SIZE_def)

lemma previewing_eq:
  "previewing =
     \<lparr>mCameraId = 0,
      mParameters =
        \<lparr>previewSize = (320, 240), previewFrameRate = 30, previewFormat = Some ''yuv422sp'',
         pictureSize = (320, 240), pictureFormat = Some ''jpeg'',
         entries =
           [KEY_SUPPORTED_PREVIEW_SIZES \<mapsto> ''640x480'',
            KEY_VIDEO_FRAME_FORMAT \<mapsto> ''yuv420sp'',
            KEY_SUPPORTED_PICTURE_SIZES \<mapsto> ''320x240'',
            KEY_SUPPORTED_PREVIEW_FPS_RANGE \<mapsto> supportedFpsRanges]\<rparr>,
      mHeap = Some (MemoryHeapBase 153600),
      mBuffer = Some (MemoryBase (MemoryHeapBase 153600) 0 153600),
      mRecordHeap = None, mRecordBuffer = None,
      mPreviewFrameSize = 153600, mRecordRunning = False, previewStopped = False,
      mMsgEnabled = 0, mPreviewThread = True, camera = 5,
      trace =
        [Cam_Open ''/dev/video0'' 320 240, Cam_Open ''/dev/video1'' 320 240,
         Cam_Open ''/dev/video2'' 320 240, New_MemoryHeapBase 153600, Cam_Init,
         Cam_StartStreaming, Set_previewStopped False, New_PreviewThread]\<rparr>"
  by (simp add: previewing_def startPreview_def CameraHardware_new_eq test_camera_def eval_defs)

lemma recording_eq:
  "recording =
     \<lparr>mCameraId = 0,
      mParameters =
        \<lparr>previewSize = (320, 240), previewFrameRate = 30, previewFormat = Some ''yuv422sp'',
         pictureSize = (320, 240), pictureFormat = Some ''jpeg'',
         entries =
           [KEY_SUPPORTED_PREVIEW_SIZES \<mapsto> ''640x480'',
            KEY_VIDEO_FRAME_FORMAT \<mapsto> ''yuv420sp'',
            KEY_SUPPORTED_PICTURE_SIZES \<mapsto> ''320x240'',
            KEY_SUPPORTED_PREVIEW_FPS_RANGE \<mapsto> supportedFpsRanges]\<rparr>,
      mHeap = Some (MemoryHeapBase 153600),
      mBuffer = Some (MemoryBase (MemoryHeapBase 153600) 0 153600),
      mRecordHeap = Some (MemoryHeapBase 115200),
      mRecordBuffer = Some (MemoryBase (MemoryHeapBase 115200) 0 115200),
      mPreviewFrameSize = 153600, mRecordRunning = True, previewStopped = False,
      mMsgEnabled = 0x20, mPreviewThread = True, camera = 5,
      trace =
        [Cam_Open ''/dev/video0'' 320 240, Cam_Open ''/dev/video1'' 320 240,
         Cam_Open ''/dev/video2'' 320 240, New_MemoryHeapBase 153600, Cam_Init,
         Cam_StartStreaming, Set_previewStopped False, New_PreviewThread,
         New_MemoryHeapBase 115200]\<rparr>"
  by (simp add: recording_def previewing_eq startRecording_def enableMsgType_def int32_div_def
      signed_divide_int_def eval_defs)

lemma recording_first_eq:
  "recording_first =
     \<lparr>mCameraId = 0,
      mParameters =
        \<lparr>previewSize = (320, 240), previewFrameRate = 30, previewFormat = Some ''yuv422sp'',
         pictureSize = (320, 240), pictureFormat = Some ''jpeg'',
         entries =
           [KEY_SUPPORTED_PREVIEW_SIZES \<mapsto> ''640x480'',
            KEY_VIDEO_FRAME_FORMAT \<mapsto> ''yuv420sp'',
            KEY_SUPPORTED_PICTURE_SIZES \<mapsto> ''320x240'',
            KEY_SUPPORTED_PREVIEW_FPS_RANGE \<mapsto> supportedFpsRanges]\<rparr>,
      mHeap = Some (MemoryHeapBase 153600),
      mBuffer = Some (MemoryBase (MemoryHeapBase 153600) 0 153600),
      mRecordHeap = Some (MemoryHeapBase 0),
      mRecordBuffer = Some (MemoryBase (MemoryHeapBase 0) 0 0),
      mPreviewFrameSize = 153600, mRecordRunning = True, previewStopped = False,
      mMsgEnabled = 0x20, mPreviewThread = True, camera = 5,
      trace =
        [New_MemoryHeapBase 0, Cam_Open ''/dev/video0'' 320 240,
         Cam_Open ''/dev/video1'' 320 240, Cam_Open ''/dev/video2'' 320 240,
         New_MemoryHeapBase 153600, Cam_Init, Cam_StartStreaming, Set_previewStopped False,
         New_PreviewThread]\<rparr>"
  by (simp add: recording_first_def startPreview_def startRecording_def CameraHardware_new_eq
      enableMsgType_def int32_div_def signed_divide_int_def test_camera_def eval_defs)

lemma init_failed_eq:
  "init_failed =
     \<lparr>mCameraId = 0,
      mParameters =
        \<lparr>previewSize = (320, 240), previewFrameRate = 30, previewFormat = Some ''yuv422sp'',
         pictureSize = (320, 240), pictureFormat = Some ''jpeg'',
         entries =
           [KEY_SUPPORTED_PREVIEW_SIZES \<mapsto> ''640x480'',
            KEY_VIDEO_FRAME_FORMAT \<mapsto> ''yuv420sp'',
            KEY_SUPPORTED_PICTURE_SIZES \<mapsto> ''320x240'',
            KEY_SUPPORTED_PREVIEW_FPS_RANGE \<mapsto> supportedFpsRanges]\<rparr>,
      mHeap = Some (MemoryHeapBase 153600),
      mBuffer = Some (MemoryBase (MemoryHeapBase 153600) 0 153600),
      mRecordHeap = None, mRecordBuffer = None,
      mPreviewFrameSize = 153600, mRecordRunning = False, previewStopped = True,
      mMsgEnabled = 0, mPreviewThread = False, camera = 3,
      trace =
        [Cam_Open ''/dev/video0'' 320 240, New_MemoryHeapBase 153600, Cam_Init, Cam_Close]\<rparr>"
  by (simp add: init_failed_def startPreview_def CameraHardware_new_eq init_fails_camera_def
      eval_defs)

lemma picture_640_eq:
  "picture_640 =
     \<lparr>mCameraId = 0,
      mParameters =
        \<lparr>previewSize = (320, 240), previewFrameRate = 30, previewFormat = Some ''yuv422sp'',
         pictureSize = (640, 480), pictureFormat = Some ''jpeg'',
         entries =
           [KEY_SUPPORTED_PREVIEW_SIZES \<mapsto> ''640x480'',
            KEY_VIDEO_FRAME_FORMAT \<mapsto> ''yuv420sp'',
            KEY_SUPPORTED_PICTURE_SIZES \<mapsto> ''320x240'',
            KEY_SUPPORTED_PREVIEW_FPS_RANGE \<mapsto> supportedFpsRanges]\<rparr>,
      mHeap = None, mBuffer = None, mRecordHeap = None, mRecordBuffer = None,
      mPreviewFrameSize = 0, mRecordRunning = False, previewStopped = True,
      mMsgEnabled = 0x102, mPreviewThread = False, camera = 0, trace = []\<rparr>"
  by (simp add: picture_640_def setParameters_def getParameters_def CameraHardware_new_eq
      enableMsgType_def eval_defs)

section \<open>32-bit arithmetic without overflow\<close>

text \<open>
  Where the products stay below \<open>2 ^ 31\<close>, the wrapped arithmetic of the frame sizes is the
  arithmetic of the integers.
\<close>

lemma sint_mult_small:
  fixes a b :: int32
  assumes "0 \<le> sint a * sint b" and "sint a * sint b < 2 ^ 31"
  shows "sint (a * b) = sint a * sint b"
proof -
  have "sint (a * b) = signed_take_bit 31 (sint a * sint b)"
    by (simp add: sint_word_ariths)
  also have "\<dots> = sint a * sint b"
    using assms by (intro signed_take_bit_int_eq_self) auto
  finally show ?thesis .
qed

lemma int32_div_small:
  fixes x :: int32
  assumes "0 \<le> sint x"
  shows "sint (int32_div x 4) = sint x div 4"
proof -
  have s: "sint x sdiv 4 = sint x div 4"
    using assms by (simp add: signed_divide_int_def sgn_if)
  have "sint x < 2 ^ 31"
    using sint_lt [of x] by simp
  then have "sint x div 4 < 2 ^ 31" "0 \<le> sint x div 4"
    using assms by auto
  then have "signed_take_bit 31 (sint x div 4) = sint x div 4"
    by (intro signed_take_bit_int_eq_self) auto
  then show ?thesis
    by (simp add: int32_div_def s sint_sbintrunc')
qed

lemma three_quarters_exact:
  fixes w h :: int32
  assumes "0 \<le> sint w" and "0 \<le> sint h" and "sint w * sint h * 6 < 2 ^ 31"
  shows "sint (int32_div (w * h * 2 * 3) 4) = sint w * sint h * 2 * 3 div 4"
proof -
  define p where "p = sint w * sint h"
  have nn: "0 \<le> p" using assms by (simp add: p_def)
  have small: "p * 6 < 2 ^ 31" using assms by (simp add: p_def)
  have less: "p < 2 ^ 31" using nn small by simp
  have wh: "sint (w * h) = p"
  proof -
    have "0 \<le> sint w * sint h" and "sint w * sint h < 2 ^ 31"
      using nn less by (simp_all only: p_def)
    then show ?thesis
      unfolding p_def by (rule sint_mult_small)
  qed
  have wh2: "sint (w * h * 2) = p * 2"
    using sint_mult_small [of "w * h" 2] nn small by (simp add: wh)
  have wh6: "sint (w * h * 2 * 3) = p * 2 * 3"
    using sint_mult_small [of "w * h * 2" 3] nn small by (simp add: wh2)
  have "0 \<le> sint (w * h * 2 * 3)"
    unfolding wh6 using nn by simp
  from int32_div_small [OF this] show ?thesis
    unfolding wh6 p_def .
qed

lemma frame_size_exact:
  fixes w h :: int32
  assumes "0 \<le> sint w" and "0 \<le> sint h" and "sint w * sint h * 2 < 2 ^ 31"
  shows "sint (w * h * 2) = sint w * sint h * 2"
proof -
  define p where "p = sint w * sint h"
  have nn: "0 \<le> p" using assms by (simp add: p_def)
  have small: "p * 2 < 2 ^ 31" using assms by (simp add: p_def)
  have less: "p < 2 ^ 31" using nn small by simp
  have wh: "sint (w * h) = p"
  proof -
    have "0 \<le> sint w * sint h" and "sint w * sint h < 2 ^ 31"
      using nn less by (simp_all only: p_def)
    then show ?thesis
      unfolding p_def by (rule sint_mult_small)
  qed
  have "sint (w * h * 2) = p * 2"
    using sint_mult_small [of "w * h" 2] nn small by (simp add: wh)
  then show ?thesis
    unfolding p_def .
qed

section \<open>The probing loop\<close>

text \<open>
  The loop probes the nodes \<open>i, i + 1, \<dots>\<close> in order at the given size, changes nothing
  but the driver state and the trace, and has probed all ten nodes when it ends on a failure.
\<close>

lemma open_loop_result:
  "i < 10 \<Longrightarrow>
   \<exists>m c. i < m \<and> m \<le> 10 \<and>
     snd (open_loop cam w h i s) =
       s\<lparr>camera := c, trace := trace s @ map (\<lambda>j. Cam_Open (devnode j) w h) [i..<m]\<rparr> \<and>
     (sint (fst (open_loop cam w h i s)) < 0 \<longrightarrow> m = 10)"
proof (induction cam w h i s rule: open_loop.induct)
  case (1 cam w h i s)
  obtain ret c where op: "Open cam (camera s) (devnode i) w h = (ret, c)"
    by (cases "Open cam (camera s) (devnode i) w h")
  let ?s' = "emit (Cam_Open (devnode i) w h) (s\<lparr>camera := c\<rparr>)"
  have co: "camera_Open cam (devnode i) w h s = (ret, ?s')"
    by (simp add: camera_Open_def op)
  show ?case
  proof (cases "0 \<le> sint ret \<or> \<not> Suc i < 10")
    case True
    then have "open_loop cam w h i s = (ret, ?s')"
      by (subst open_loop.simps) (auto simp: co)
    moreover have "?s' = s\<lparr>camera := c, trace := trace s @ map (\<lambda>j. Cam_Open (devnode j) w h) [i..<Suc i]\<rparr>"
      by (simp add: emit_def)
    ultimately show ?thesis
      using True "1.prems" by (intro exI[of _ "Suc i"] exI[of _ c]) auto
  next
    case False
    then have neg: "\<not> 0 \<le> sint ret" and lt: "Suc i < 10" by auto
    have rec: "open_loop cam w h i s = open_loop cam w h (Suc i) ?s'"
      using neg lt by (subst open_loop.simps) (simp add: co)
    from "1.IH"[OF co[symmetric] refl neg lt lt]
    obtain m c' where m: "Suc i < m" "m \<le> 10"
      and eq: "snd (open_loop cam w h (Suc i) ?s') =
         ?s'\<lparr>camera := c', trace := trace ?s' @ map (\<lambda>j. Cam_Open (devnode j) w h) [Suc i..<m]\<rparr>"
      and fl: "sint (fst (open_loop cam w h (Suc i) ?s')) < 0 \<longrightarrow> m = 10"
      by blast
    have "[i..<m] = i # [Suc i..<m]"
      using m by (simp add: upt_conv_Cons)
    then have "snd (open_loop cam w h i s) =
        s\<lparr>camera := c', trace := trace s @ map (\<lambda>j. Cam_Open (devnode j) w h) [i..<m]\<rparr>"
      unfolding rec eq by (simp add: emit_def)
    then show ?thesis
      using m fl rec by (intro exI[of _ m] exI[of _ c']) auto
  qed
qed

lemma open_loop_fields:
  "mParameters (snd (open_loop cam w h 0 s)) = mParameters s"
  "mHeap (snd (open_loop cam w h 0 s)) = mHeap s"
  "mBuffer (snd (open_loop cam w h 0 s)) = mBuffer s"
  "mRecordHeap (snd (open_loop cam w h 0 s)) = mRecordHeap s"
  "mRecordBuffer (snd (open_loop cam w h 0 s)) = mRecordBuffer s"
  "mPreviewFrameSize (snd (open_loop cam w h 0 s)) = mPreviewFrameSize s"
  "mRecordRunning (snd (open_loop cam w h 0 s)) = mRecordRunning s"
  "previewStopped (snd (open_loop cam w h 0 s)) = previewStopped s"
  "mMsgEnabled (snd (open_loop cam w h 0 s)) = mMsgEnabled s"
  "mPreviewThread (snd (open_loop cam w h 0 s)) = mPreviewThread s"
  using open_loop_result[of 0 cam w h s] by auto

text \<open>
  The same loop against the answers of the driver: it returns the status of the last probe
  it made, every probe before that one failed, and it stops before the tenth node only on
  a node that opened.
\<close>

lemma open_loop_probes:
  "i < 10 \<Longrightarrow> camera s = probed cam w h c0 i \<Longrightarrow>
   \<exists>m. i < m \<and> m \<le> 10 \<and>
     open_loop cam w h i s =
       (probe_result cam w h c0 (m - 1),
        s\<lparr>camera := probed cam w h c0 m,
          trace := trace s @ map (\<lambda>j. Cam_Open (devnode j) w h) [i..<m]\<rparr>) \<and>
     (\<forall>j. i \<le> j \<and> j < m - 1 \<longrightarrow> sint (probe_result cam w h c0 j) < 0) \<and>
     (sint (probe_result cam w h c0 (m - 1)) < 0 \<longrightarrow> m = 10)"
proof (induction cam w h i s rule: open_loop.induct)
  case (1 cam w h i s)
  let ?ret = "probe_result cam w h c0 i"
  let ?s' = "emit (Cam_Open (devnode i) w h) (s\<lparr>camera := probed cam w h c0 (Suc i)\<rparr>)"
  have op: "Open cam (camera s) (devnode i) w h = (?ret, probed cam w h c0 (Suc i))"
    by (simp add: probe_result_def "1.prems"(2))
  have co: "camera_Open cam (devnode i) w h s = (?ret, ?s')"
    by (simp add: camera_Open_def op)
  show ?case
  proof (cases "0 \<le> sint ?ret \<or> \<not> Suc i < 10")
    case True
    then have "open_loop cam w h i s = (?ret, ?s')"
      by (subst open_loop.simps) (auto simp: co)
    moreover have "?s' = s\<lparr>camera := probed cam w h c0 (Suc i),
        trace := trace s @ map (\<lambda>j. Cam_Open (devnode j) w h) [i..<Suc i]\<rparr>"
      by (simp add: emit_def)
    ultimately show ?thesis
      using True "1.prems"(1) by (intro exI [of _ "Suc i"]) auto
  next
    case False
    then have neg: "\<not> 0 \<le> sint ?ret" and lt: "Suc i < 10" by auto
    have rec: "open_loop cam w h i s = open_loop cam w h (Suc i) ?s'"
      using neg lt by (subst open_loop.simps) (simp add: co)
    have cam': "camera ?s' = probed cam w h c0 (Suc i)"
      by (simp add: emit_def)
    from "1.IH" [OF co [symmetric] refl neg lt lt cam']
    obtain m where m: "Suc i < m" "m \<le> 10"
      and eq: "open_loop cam w h (Suc i) ?s' =
         (probe_result cam w h c0 (m - 1),
          ?s'\<lparr>camera := probed cam w h c0 m,
            trace := trace ?s' @ map (\<lambda>j. Cam_Open (devnode j) w h) [Suc i..<m]\<rparr>)"
      and before: "\<forall>j. Suc i \<le> j \<and> j < m - 1 \<longrightarrow> sint (probe_result cam w h c0 j) < 0"
      and fl: "sint (probe_result cam w h c0 (m - 1)) < 0 \<longrightarrow> m = 10"
      by blast
    have upt: "[i..<m] = i # [Suc i..<m]"
      using m by (simp add: upt_conv_Cons)
    have res: "open_loop cam w h i s =
        (probe_result cam w h c0 (m - 1),
         s\<lparr>camera := probed cam w h c0 m,
           trace := trace s @ map (\<lambda>j. Cam_Open (devnode j) w h) [i..<m]\<rparr>)"
      unfolding rec eq upt by (simp add: emit_def)
    have all: "\<forall>j. i \<le> j \<and> j < m - 1 \<longrightarrow> sint (probe_result cam w h c0 j) < 0"
    proof (intro allI impI)
      fix j assume j: "i \<le> j \<and> j < m - 1"
      show "sint (probe_result cam w h c0 j) < 0"
      proof (cases "j = i")
        case True
        with neg show ?thesis by simp
      next
        case False
        with j have "Suc i \<le> j \<and> j < m - 1" by simp
        with before show ?thesis by blast
      qed
    qed
    show ?thesis
      using m res all fl by (intro exI [of _ m]) auto
  qed
qed

text \<open>On a driver that refuses every \<open>Open\<close>, the loop ends on a failure.\<close>

lemma open_loop_all_fail:
  "\<forall>c node w h. sint (fst (Open cam c node w h)) < 0 \<Longrightarrow>
   sint (fst (open_loop cam width height i s)) < 0"
proof (induction cam width height i s rule: open_loop.induct)
  case (1 cam width height i s)
  obtain ret c where op: "Open cam (camera s) (devnode i) width height = (ret, c)"
    by (cases "Open cam (camera s) (devnode i) width height")
  let ?s' = "emit (Cam_Open (devnode i) width height) (s\<lparr>camera := c\<rparr>)"
  have co: "camera_Open cam (devnode i) width height s = (ret, ?s')"
    by (simp add: camera_Open_def op)
  have neg: "\<not> 0 \<le> sint ret"
    using "1.prems" [rule_format, of "camera s" "devnode i" width height] by (simp add: op)
  show ?case
  proof (cases "Suc i < 10")
    case True
    have "open_loop cam width height i s = open_loop cam width height (Suc i) ?s'"
      using neg True by (subst open_loop.simps) (simp add: co)
    with "1.IH" [OF co [symmetric] refl neg True "1.prems"] show ?thesis
      by simp
  next
    case False
    have "open_loop cam width height i s = (ret, ?s')"
      using neg False by (subst open_loop.simps) (simp add: co)
    with neg show ?thesis
      by simp
  qed
qed

lemma filter_is_alloc_opens [simp]:
  "filter is_alloc (map (\<lambda>j. Cam_Open (f j) w h) js) = []"
  by (induction js) simp_all

section \<open>Starting the preview\<close>

lemma startPreview_running: "mPreviewThread s \<Longrightarrow> startPreview cam s = (INVALID_OPERATION, s)"
  by (simp add: startPreview_def)

lemma startPreview_unfold:
  assumes "\<not> mPreviewThread s"
    and "getPreviewSize (mParameters s) = (width, height)"
    and "open_loop cam width height 0 s = (ret, s1)"
    and "Init cam (camera s1) = (ri, ci)"
    and "StartStreaming cam ci = (rs, cs)"
  shows "startPreview cam s =
     (if sint ret < 0 then (- 1, s1)
      else if ri \<noteq> 0 then
        (ri, s1\<lparr>mHeap := Some (MemoryHeapBase (width * height * 2)),
          mBuffer := Some (MemoryBase (MemoryHeapBase (width * height * 2)) 0 (width * height * 2)),
          mPreviewFrameSize := width * height * 2, camera := Close cam ci,
          trace := trace s1 @ [New_MemoryHeapBase (width * height * 2), Cam_Init, Cam_Close]\<rparr>)
      else if rs \<noteq> 0 then
        (rs, s1\<lparr>mHeap := Some (MemoryHeapBase (width * height * 2)),
          mBuffer := Some (MemoryBase (MemoryHeapBase (width * height * 2)) 0 (width * height * 2)),
          mPreviewFrameSize := width * height * 2, camera := Close cam (Uninit cam cs),
          trace := trace s1 @ [New_MemoryHeapBase (width * height * 2), Cam_Init,
            Cam_StartStreaming, Cam_Uninit, Cam_Close]\<rparr>)
      else
        (NO_ERROR, s1\<lparr>mHeap := Some (MemoryHeapBase (width * height * 2)),
          mBuffer := Some (MemoryBase (MemoryHeapBase (width * height * 2)) 0 (width * height * 2)),
          mPreviewFrameSize := width * height * 2, previewStopped := False,
          mPreviewThread := True, camera := cs,
          trace := trace s1 @ [New_MemoryHeapBase (width * height * 2), Cam_Init,
            Cam_StartStreaming, Set_previewStopped False, New_PreviewThread]\<rparr>))"
  by (simp add: startPreview_def assms Let_def camera_defs)

lemma startPreview_success:
  assumes ok: "fst (startPreview cam s) = NO_ERROR"
    and size: "getPreviewSize (mParameters s) = (width, height)"
  shows "\<exists>m c. 0 < m \<and> m \<le> 10 \<and>
     snd (startPreview cam s) =
       s\<lparr>mHeap := Some (MemoryHeapBase (width * height * 2)),
          mBuffer := Some (MemoryBase (MemoryHeapBase (width * height * 2)) 0 (width * height * 2)),
          mPreviewFrameSize := width * height * 2,
          previewStopped := False, mPreviewThread := True, camera := c,
          trace := trace s @ map (\<lambda>j. Cam_Open (devnode j) width height) [0..<m] @
            [New_MemoryHeapBase (width * height * 2), Cam_Init, Cam_StartStreaming,
             Set_previewStopped False, New_PreviewThread]\<rparr>"
proof -
  obtain ret s1 where r: "open_loop cam width height 0 s = (ret, s1)"
    by (cases "open_loop cam width height 0 s")
  obtain ri ci where i: "Init cam (camera s1) = (ri, ci)"
    by (cases "Init cam (camera s1)")
  obtain rs cs where st: "StartStreaming cam ci = (rs, cs)"
    by (cases "StartStreaming cam ci")
  from open_loop_result [of 0 cam width height s] r
  obtain m c where m: "0 < m" "m \<le> 10"
    and loop: "s1 =
      s\<lparr>camera := c, trace := trace s @ map (\<lambda>j. Cam_Open (devnode j) width height) [0..<m]\<rparr>"
    by auto
  have idle: "\<not> mPreviewThread s"
    using ok by (auto simp: startPreview_def NO_ERROR_def INVALID_OPERATION_def)
  note u = startPreview_unfold [OF idle size r i st]
  have "\<not> sint ret < 0" "ri = 0" "rs = 0"
    using ok unfolding u by (auto simp: NO_ERROR_def split: if_splits)
  then have "snd (startPreview cam s) =
      s1\<lparr>mHeap := Some (MemoryHeapBase (width * height * 2)),
          mBuffer := Some (MemoryBase (MemoryHeapBase (width * height * 2)) 0 (width * height * 2)),
          mPreviewFrameSize := width * height * 2, previewStopped := False,
          mPreviewThread := True, camera := cs,
          trace := trace s1 @ [New_MemoryHeapBase (width * height * 2), Cam_Init,
            Cam_StartStreaming, Set_previewStopped False, New_PreviewThread]\<rparr>"
    unfolding u by simp
  then show ?thesis
    using m by (intro exI [of _ m] exI [of _ cs]) (simp add: loop)
qed

lemma startPreview_record:
  "mRecordHeap (snd (startPreview cam s)) = mRecordHeap s"
  "mRecordBuffer (snd (startPreview cam s)) = mRecordBuffer s"
  "mRecordRunning (snd (startPreview cam s)) = mRecordRunning s"
  by (simp_all add: startPreview_def split_def Let_def camera_defs open_loop_fields)

text \<open>
  Claim C8. With a preview thread already held, \<open>startPreview\<close> returns
  \<open>INVALID_OPERATION\<close> (which is not the success status) and leaves the whole state as it
  was: no node is probed, nothing is allocated, the frame size is unchanged. When
  \<open>startPreview\<close> succeeds, the one memory region it allocates, the preview heap and the
  preview buffer all have the size \<open>width * height * 2\<close> of the configured preview size, in
  32-bit arithmetic, which is the product of the integers where that is below \<open>2 ^ 31\<close>.
\<close>

theorem startPreview_running_or_allocating:
  assumes "getPreviewSize (mParameters s) = (width, height)"
  shows "(mPreviewThread s \<longrightarrow> startPreview cam s = (INVALID_OPERATION, s)) \<and>
         INVALID_OPERATION \<noteq> NO_ERROR \<and>
         (fst (startPreview cam s) = NO_ERROR \<longrightarrow>
            mHeap (snd (startPreview cam s)) = Some (MemoryHeapBase (width * height * 2)) \<and>
            mBuffer (snd (startPreview cam s)) =
              Some (MemoryBase (MemoryHeapBase (width * height * 2)) 0 (width * height * 2)) \<and>
            mPreviewFrameSize (snd (startPreview cam s)) = width * height * 2 \<and>
            filter is_alloc (emitted s (snd (startPreview cam s))) =
              [New_MemoryHeapBase (width * height * 2)] \<and>
            (0 \<le> sint width \<and> 0 \<le> sint height \<and> sint width * sint height * 2 < 2 ^ 31 \<longrightarrow>
               sint (width * height * 2) = sint width * sint height * 2))"
proof (intro conjI impI)
  assume "mPreviewThread s"
  then show "startPreview cam s = (INVALID_OPERATION, s)"
    by (rule startPreview_running)
next
  show "INVALID_OPERATION \<noteq> NO_ERROR"
    by (simp add: INVALID_OPERATION_def NO_ERROR_def)
next
  assume ok: "fst (startPreview cam s) = NO_ERROR"
  from startPreview_success [OF ok assms]
  obtain m c where eq: "snd (startPreview cam s) =
       s\<lparr>mHeap := Some (MemoryHeapBase (width * height * 2)),
          mBuffer := Some (MemoryBase (MemoryHeapBase (width * height * 2)) 0 (width * height * 2)),
          mPreviewFrameSize := width * height * 2,
          previewStopped := False, mPreviewThread := True, camera := c,
          trace := trace s @ map (\<lambda>j. Cam_Open (devnode j) width height) [0..<m] @
            [New_MemoryHeapBase (width * height * 2), Cam_Init, Cam_StartStreaming,
             Set_previewStopped False, New_PreviewThread]\<rparr>"
    by blast
  show "mHeap (snd (startPreview cam s)) = Some (MemoryHeapBase (width * height * 2))"
    unfolding eq by simp
  show "mBuffer (snd (startPreview cam s)) =
      Some (MemoryBase (MemoryHeapBase (width * height * 2)) 0 (width * height * 2))"
    unfolding eq by simp
  show "mPreviewFrameSize (snd (startPreview cam s)) = width * height * 2"
    unfolding eq by simp
  show "filter is_alloc (emitted s (snd (startPreview cam s))) =
      [New_MemoryHeapBase (width * height * 2)]"
    unfolding eq by (simp add: emitted_def)
next
  assume "0 \<le> sint width \<and> 0 \<le> sint height \<and> sint width * sint height * 2 < 2 ^ 31"
  then show "sint (width * height * 2) = sint width * sint height * 2"
    by (intro frame_size_exact) auto
qed

theorem startPreview_running_or_allocating_witness:
  "getPreviewSize (mParameters previewing) = (320, 240) \<and>
   mPreviewThread previewing \<and>
   startPreview test_camera previewing = (INVALID_OPERATION, previewing) \<and>
   getPreviewSize (mParameters (CameraHardware_new 0 (0::nat))) = (320, 240) \<and>
   fst (startPreview test_camera (CameraHardware_new 0 0)) = NO_ERROR \<and>
   mHeap (snd (startPreview test_camera (CameraHardware_new 0 0))) =
     Some (MemoryHeapBase 153600) \<and>
   filter is_alloc (emitted (CameraHardware_new 0 0)
     (snd (startPreview test_camera (CameraHardware_new 0 0)))) = [New_MemoryHeapBase 153600] \<and>
   sint (320 * 240 * 2 :: int32) = 153600"
proof -
  have a: "getPreviewSize (mParameters previewing) = (320, 240)"
    and b: "mPreviewThread previewing"
    by (simp_all add: previewing_eq getPreviewSize_def)
  have c: "getPreviewSize (mParameters (CameraHardware_new 0 (0::nat))) = (320, 240)"
    by (simp add: CameraHardware_new_eq getPreviewSize_def)
  have d: "fst (startPreview test_camera (CameraHardware_new 0 0)) = NO_ERROR"
    by (simp add: startPreview_def CameraHardware_new_eq test_camera_def eval_defs)
  from startPreview_running_or_allocating [OF a, of test_camera]
    startPreview_running_or_allocating [OF c, of test_camera] a b c d
  show ?thesis by simp
qed

section \<open>Stopping the preview\<close>

lemma stopPreview_idle:
  "\<not> mPreviewThread s \<Longrightarrow>
   stopPreview cam s =
     s\<lparr>previewStopped := True, trace := trace s @ [Set_previewStopped True, Clear_mPreviewThread]\<rparr>"
  by (simp add: stopPreview_def emit_def)

lemma stopPreview_running:
  "mPreviewThread s \<Longrightarrow>
   stopPreview cam s =
     s\<lparr>previewStopped := True, mPreviewThread := False,
       camera := Close cam (StopStreaming cam (Uninit cam (camera s))),
       trace := trace s @ [Set_previewStopped True, RequestExitAndWait, Cam_Uninit,
         Cam_StopStreaming, Cam_Close, Clear_mPreviewThread]\<rparr>"
  by (simp add: stopPreview_def camera_defs)

lemma stopPreview_twice:
  "stopPreview cam (stopPreview cam s) =
     (stopPreview cam s)\<lparr>trace := trace (stopPreview cam s) @
        [Set_previewStopped True, Clear_mPreviewThread]\<rparr>"
proof -
  have idle: "\<not> mPreviewThread (stopPreview cam s)"
    and stopped: "previewStopped (stopPreview cam s)"
    by (simp_all add: stopPreview_def camera_defs Let_def)
  have "(stopPreview cam s)\<lparr>previewStopped := True\<rparr> = stopPreview cam s"
    using stopped by (cases "stopPreview cam s") simp
  then show ?thesis
    unfolding stopPreview_idle [OF idle] by simp
qed

text \<open>
  Claim C2, as amended. When a preview thread is held, \<open>stopPreview\<close> first sets the
  stopped flag, then waits for the thread to exit, then tears the device session down in
  the order uninitialise, stop streaming, close, and last clears the thread handle; the
  flag is set and the handle is null afterwards.
\<close>

theorem stopPreview_running_order:
  assumes "mPreviewThread s"
  shows "emitted s (stopPreview cam s) =
           [Set_previewStopped True, RequestExitAndWait, Cam_Uninit, Cam_StopStreaming,
            Cam_Close, Clear_mPreviewThread] \<and>
         previewStopped (stopPreview cam s) \<and> \<not> mPreviewThread (stopPreview cam s)"
  using assms by (simp add: stopPreview_running emitted_def)

theorem stopPreview_running_order_witness:
  "mPreviewThread previewing \<and>
   emitted previewing (stopPreview test_camera previewing) =
     [Set_previewStopped True, RequestExitAndWait, Cam_Uninit, Cam_StopStreaming, Cam_Close,
      Clear_mPreviewThread] \<and>
   previewStopped (stopPreview test_camera previewing) \<and>
   \<not> mPreviewThread (stopPreview test_camera previewing)"
proof -
  have running: "mPreviewThread previewing"
    by (simp add: previewing_eq)
  from stopPreview_running_order [OF running, of test_camera] running show ?thesis
    by simp
qed

text \<open>
  The order the claim gives (stop streaming before uninitialise) is not the one of the
  code: on the running preview of the test driver the calls are \<open>Uninit\<close>,
  \<open>StopStreaming\<close>, \<open>Close\<close>.
\<close>

theorem stopPreview_reverse_order_counterexample:
  "mPreviewThread previewing \<and>
   emitted previewing (stopPreview test_camera previewing) \<noteq>
     [Set_previewStopped True, RequestExitAndWait, Cam_StopStreaming, Cam_Uninit, Cam_Close,
      Clear_mPreviewThread]"
  by (simp add: previewing_eq stopPreview_def emitted_def camera_defs)

text \<open>
  Claim C9. \<open>stopPreview\<close> on an object that holds no preview thread (as the one the
  constructor leaves), and a second \<open>stopPreview\<close> right after a first one, only set the
  stopped flag and clear the null handle: the driver is not called and its state is
  unchanged, and the second call leaves every member as the first one left it. The
  function returns nothing, so there is no error to report.
\<close>

theorem stopPreview_idempotent:
  "(\<not> mPreviewThread s \<longrightarrow>
      emitted s (stopPreview cam s) = [Set_previewStopped True, Clear_mPreviewThread] \<and>
      camera (stopPreview cam s) = camera s) \<and>
   emitted (stopPreview cam s) (stopPreview cam (stopPreview cam s)) =
     [Set_previewStopped True, Clear_mPreviewThread] \<and>
   camera (stopPreview cam (stopPreview cam s)) = camera (stopPreview cam s) \<and>
   stopPreview cam (stopPreview cam s) =
     (stopPreview cam s)\<lparr>trace := trace (stopPreview cam s) @
        [Set_previewStopped True, Clear_mPreviewThread]\<rparr> \<and>
   \<not> mPreviewThread (CameraHardware_new cameraId c)"
  by (simp add: stopPreview_twice stopPreview_idle emitted_def CameraHardware_new_eq)

theorem stopPreview_idempotent_witness:
  "\<not> mPreviewThread (CameraHardware_new 0 (0::nat)) \<and>
   emitted (CameraHardware_new 0 0) (stopPreview test_camera (CameraHardware_new 0 0)) =
     [Set_previewStopped True, Clear_mPreviewThread] \<and>
   camera (stopPreview test_camera (CameraHardware_new 0 0)) = 0 \<and>
   mPreviewThread previewing \<and>
   emitted (stopPreview test_camera previewing)
     (stopPreview test_camera (stopPreview test_camera previewing)) =
     [Set_previewStopped True, Clear_mPreviewThread] \<and>
   camera (stopPreview test_camera (stopPreview test_camera previewing)) = 8"
proof -
  have never: "\<not> mPreviewThread (CameraHardware_new 0 (0::nat))"
    by (simp add: CameraHardware_new_eq)
  have running: "mPreviewThread previewing"
    by (simp add: previewing_eq)
  have cam: "camera (CameraHardware_new 0 (0::nat)) = 0"
    "camera (stopPreview test_camera previewing) = 8"
    by (simp_all add: CameraHardware_new_eq previewing_eq stopPreview_def camera_defs
        test_camera_def)
  from stopPreview_idempotent [of "CameraHardware_new 0 0" test_camera 0 "0::nat"] never
  have first:
    "emitted (CameraHardware_new 0 0) (stopPreview test_camera (CameraHardware_new 0 0)) =
       [Set_previewStopped True, Clear_mPreviewThread]"
    "camera (stopPreview test_camera (CameraHardware_new 0 0)) =
       camera (CameraHardware_new 0 (0::nat))"
    by blast+
  from stopPreview_idempotent [of previewing test_camera 0 "0::nat"]
  have second:
    "emitted (stopPreview test_camera previewing)
       (stopPreview test_camera (stopPreview test_camera previewing)) =
       [Set_previewStopped True, Clear_mPreviewThread]"
    "camera (stopPreview test_camera (stopPreview test_camera previewing)) =
       camera (stopPreview test_camera previewing)"
    by blast+
  show ?thesis
    using never running first second by (simp only: cam simp_thms)
qed

section \<open>The preview loop\<close>

text \<open>
  Claim C4. An iteration that finds the stopped flag set adds nothing to the trace: no
  driver call and no callback. An iteration that finds it clear calls the data callback
  with the preview-frame kind if and only if the preview-frame or the video-frame kind is
  enabled.
\<close>

theorem previewThread_delivery:
  "(previewStopped s \<longrightarrow> emitted s (snd (previewThread K cam timeStamp s)) = []) \<and>
   (\<not> previewStopped s \<longrightarrow>
      ((\<exists>mem. DataFn (CAMERA_MSG_PREVIEW_FRAME K) mem
           \<in> set (emitted s (snd (previewThread K cam timeStamp s)))) \<longleftrightarrow>
       msgTypeEnabled (CAMERA_MSG_PREVIEW_FRAME K) s \<or>
       msgTypeEnabled (CAMERA_MSG_VIDEO_FRAME K) s))"
  by (auto simp: previewThread_def emitted_def msgTypeEnabled_def camera_defs split_def Let_def)

theorem previewThread_delivery_witness:
  "previewStopped (stopPreview test_camera recording) \<and>
   emitted (stopPreview test_camera recording)
     (snd (previewThread android_msg test_camera 7 (stopPreview test_camera recording))) = [] \<and>
   \<not> previewStopped recording \<and>
   msgTypeEnabled (CAMERA_MSG_VIDEO_FRAME android_msg) recording \<and>
   (\<exists>mem. DataFn (CAMERA_MSG_PREVIEW_FRAME android_msg) mem
      \<in> set (emitted recording (snd (previewThread android_msg test_camera 7 recording)))) \<and>
   \<not> previewStopped previewing \<and>
   \<not> msgTypeEnabled (CAMERA_MSG_PREVIEW_FRAME android_msg) previewing \<and>
   \<not> msgTypeEnabled (CAMERA_MSG_VIDEO_FRAME android_msg) previewing \<and>
   \<not> (\<exists>mem. DataFn (CAMERA_MSG_PREVIEW_FRAME android_msg) mem
      \<in> set (emitted previewing (snd (previewThread android_msg test_camera 7 previewing))))"
proof -
  have a: "previewStopped (stopPreview test_camera recording)"
    by (simp add: stopPreview_def emit_def Let_def camera_defs)
  have b: "\<not> previewStopped recording"
    "msgTypeEnabled (CAMERA_MSG_VIDEO_FRAME android_msg) recording"
    by (simp_all add: recording_eq msgTypeEnabled_def android_msg_def)
  have c: "\<not> previewStopped previewing"
    "\<not> msgTypeEnabled (CAMERA_MSG_PREVIEW_FRAME android_msg) previewing"
    "\<not> msgTypeEnabled (CAMERA_MSG_VIDEO_FRAME android_msg) previewing"
    by (simp_all add: previewing_eq msgTypeEnabled_def android_msg_def)
  from previewThread_delivery [of "stopPreview test_camera recording" android_msg test_camera 7]
    previewThread_delivery [of recording android_msg test_camera 7]
    previewThread_delivery [of previewing android_msg test_camera 7] a b c
  show ?thesis
    by simp
qed

lemma previewThread_callbacks:
  assumes "\<not> previewStopped s"
  shows "filter is_callback (emitted s (snd (previewThread K cam timeStamp s))) =
     (if msgTypeEnabled (CAMERA_MSG_VIDEO_FRAME K) s \<and> mRecordRunning s
      then [TimestampFn timeStamp (CAMERA_MSG_VIDEO_FRAME K) (mRecordBuffer s)] else []) @
     (if msgTypeEnabled (CAMERA_MSG_PREVIEW_FRAME K) s \<or> msgTypeEnabled (CAMERA_MSG_VIDEO_FRAME K) s
      then [DataFn (CAMERA_MSG_PREVIEW_FRAME K) (mBuffer s)] else [])"
  using assms
  by (simp add: previewThread_def emitted_def msgTypeEnabled_def camera_defs split_def Let_def)

lemma startRecording_buffer:
  "mRecordBuffer (snd (startRecording s)) =
     Some (MemoryBase (MemoryHeapBase (int32_div (mPreviewFrameSize s * 3) 4)) 0
       (int32_div (mPreviewFrameSize s * 3) 4))"
  by (simp add: startRecording_def emit_def Let_def)

text \<open>
  Claim C5, as amended. The callbacks of an iteration that finds the stopped flag clear
  are, in this order: the timestamp callback with the video-frame kind and the record
  buffer, when the video-frame kind is enabled and recording is on, and none with that
  kind otherwise; then the data callback with the preview-frame kind and the preview
  buffer, when the preview-frame or the video-frame kind is enabled, whatever the state
  of recording. The record buffer that \<open>startRecording\<close> allocates right after a successful
  \<open>startPreview\<close> at the preview size \<open>width\<close> by \<open>height\<close> has the size
  \<open>width * height * 2 * 3 / 4\<close> in 32-bit arithmetic, which is three quarters of
  \<open>width * height * 2\<close> (rounded down) where \<open>width * height * 6\<close> is below \<open>2 ^ 31\<close>.
\<close>

theorem previewThread_video_frames:
  assumes "getPreviewSize (mParameters s0) = (width, height)"
  shows "(\<not> previewStopped s \<longrightarrow>
           filter is_callback (emitted s (snd (previewThread K cam timeStamp s))) =
             (if msgTypeEnabled (CAMERA_MSG_VIDEO_FRAME K) s \<and> mRecordRunning s
              then [TimestampFn timeStamp (CAMERA_MSG_VIDEO_FRAME K) (mRecordBuffer s)] else []) @
             (if msgTypeEnabled (CAMERA_MSG_PREVIEW_FRAME K) s \<or>
                 msgTypeEnabled (CAMERA_MSG_VIDEO_FRAME K) s
              then [DataFn (CAMERA_MSG_PREVIEW_FRAME K) (mBuffer s)] else [])) \<and>
         (fst (startPreview cam s0) = NO_ERROR \<longrightarrow>
            mRecordBuffer (snd (startRecording (snd (startPreview cam s0)))) =
              Some (MemoryBase (MemoryHeapBase (int32_div (width * height * 2 * 3) 4)) 0
                (int32_div (width * height * 2 * 3) 4))) \<and>
         (0 \<le> sint width \<and> 0 \<le> sint height \<and> sint width * sint height * 6 < 2 ^ 31 \<longrightarrow>
            sint (int32_div (width * height * 2 * 3) 4) = sint width * sint height * 2 * 3 div 4)"
proof (intro conjI impI)
  assume "\<not> previewStopped s"
  then show "filter is_callback (emitted s (snd (previewThread K cam timeStamp s))) =
     (if msgTypeEnabled (CAMERA_MSG_VIDEO_FRAME K) s \<and> mRecordRunning s
      then [TimestampFn timeStamp (CAMERA_MSG_VIDEO_FRAME K) (mRecordBuffer s)] else []) @
     (if msgTypeEnabled (CAMERA_MSG_PREVIEW_FRAME K) s \<or> msgTypeEnabled (CAMERA_MSG_VIDEO_FRAME K) s
      then [DataFn (CAMERA_MSG_PREVIEW_FRAME K) (mBuffer s)] else [])"
    by (rule previewThread_callbacks)
next
  assume ok: "fst (startPreview cam s0) = NO_ERROR"
  from startPreview_success [OF ok assms]
  have "mPreviewFrameSize (snd (startPreview cam s0)) = width * height * 2"
    by auto
  then show "mRecordBuffer (snd (startRecording (snd (startPreview cam s0)))) =
      Some (MemoryBase (MemoryHeapBase (int32_div (width * height * 2 * 3) 4)) 0
        (int32_div (width * height * 2 * 3) 4))"
    unfolding startRecording_buffer by simp
next
  assume "0 \<le> sint width \<and> 0 \<le> sint height \<and> sint width * sint height * 6 < 2 ^ 31"
  then show "sint (int32_div (width * height * 2 * 3) 4) = sint width * sint height * 2 * 3 div 4"
    by (intro three_quarters_exact) auto
qed

theorem previewThread_video_frames_witness:
  "getPreviewSize (mParameters (CameraHardware_new 0 (0::nat))) = (320, 240) \<and>
   fst (startPreview test_camera (CameraHardware_new 0 0)) = NO_ERROR \<and>
   \<not> previewStopped recording \<and>
   filter is_callback (emitted recording (snd (previewThread android_msg test_camera 7 recording))) =
     [TimestampFn 7 0x20 (Some (MemoryBase (MemoryHeapBase 115200) 0 115200)),
      DataFn 0x10 (Some (MemoryBase (MemoryHeapBase 153600) 0 153600))] \<and>
   \<not> previewStopped (stopRecording recording) \<and>
   filter is_callback (emitted (stopRecording recording)
     (snd (previewThread android_msg test_camera 7 (stopRecording recording)))) =
     [DataFn 0x10 (Some (MemoryBase (MemoryHeapBase 153600) 0 153600))] \<and>
   mRecordBuffer (snd (startRecording (snd (startPreview test_camera (CameraHardware_new 0 0))))) =
     Some (MemoryBase (MemoryHeapBase 115200) 0 115200) \<and>
   sint (int32_div (320 * 240 * 2 * 3) 4) = 115200 \<and>
   (320 * 240 * 2 * 3) div 4 = (115200::int)"
proof -
  have a: "getPreviewSize (mParameters (CameraHardware_new 0 (0::nat))) = (320, 240)"
    by (simp add: CameraHardware_new_eq getPreviewSize_def)
  have b: "fst (startPreview test_camera (CameraHardware_new 0 0)) = NO_ERROR"
    by (simp add: startPreview_def CameraHardware_new_eq test_camera_def eval_defs)
  have c: "\<not> previewStopped recording" "\<not> previewStopped (stopRecording recording)"
    by (simp_all add: recording_eq stopRecording_def)
  from previewThread_video_frames [OF a, of recording android_msg test_camera 7]
    previewThread_video_frames [OF a, of "stopRecording recording" android_msg test_camera 7]
    a b c
  show ?thesis
    by (simp add: recording_eq stopRecording_def msgTypeEnabled_def android_msg_def int32_div_def
        signed_divide_int_def)
qed

text \<open>
  The size of the record buffer is fixed when \<open>startRecording\<close> runs, from the frame size
  of that moment. On the object on which \<open>startRecording\<close> came before \<open>startPreview\<close>,
  the video-frame kind is enabled, recording is on and the preview runs at 320 by 240, and
  the video frame is delivered in a buffer of size zero.
\<close>

theorem previewThread_video_buffer_counterexample:
  "msgTypeEnabled (CAMERA_MSG_VIDEO_FRAME android_msg) recording_first \<and>
   mRecordRunning recording_first \<and> \<not> previewStopped recording_first \<and>
   getPreviewSize (mParameters recording_first) = (320, 240) \<and>
   filter is_callback
     (emitted recording_first (snd (previewThread android_msg test_camera 7 recording_first))) =
     [TimestampFn 7 (CAMERA_MSG_VIDEO_FRAME android_msg) (Some (MemoryBase (MemoryHeapBase 0) 0 0)),
      DataFn (CAMERA_MSG_PREVIEW_FRAME android_msg)
        (Some (MemoryBase (MemoryHeapBase 153600) 0 153600))] \<and>
   int32_div (320 * 240 * 2 * 3) 4 \<noteq> 0"
  by (simp add: recording_first_eq previewThread_def emitted_def msgTypeEnabled_def int32_div_def
      signed_divide_int_def test_camera_def eval_defs)

section \<open>Recording\<close>

text \<open>A \<open>startPreview\<close> that finds no node to open leaves the frame size as it was.\<close>

lemma startPreview_no_node:
  assumes "\<forall>c node w h. sint (fst (Open cam c node w h)) < 0"
  shows "mPreviewFrameSize (snd (startPreview cam s)) = mPreviewFrameSize s"
proof (cases "mPreviewThread s")
  case True
  then show ?thesis by (simp add: startPreview_running)
next
  case False
  obtain width height where size: "getPreviewSize (mParameters s) = (width, height)"
    by (cases "getPreviewSize (mParameters s)")
  obtain ret s1 where r: "open_loop cam width height 0 s = (ret, s1)"
    by (cases "open_loop cam width height 0 s")
  have neg: "sint ret < 0"
    using open_loop_all_fail [OF assms, of width height 0 s] by (simp add: r)
  have s1: "mPreviewFrameSize s1 = mPreviewFrameSize s"
    using open_loop_fields(6) [of cam width height s] by (simp add: r)
  obtain ri ci where i: "Init cam (camera s1) = (ri, ci)"
    by (cases "Init cam (camera s1)")
  obtain rs cs where st: "StartStreaming cam ci = (rs, cs)"
    by (cases "StartStreaming cam ci")
  show ?thesis
    unfolding startPreview_unfold [OF False size r i st]
    using neg by (simp add: s1)
qed

text \<open>
  Claim C10, as amended. On an object whose preview frame size is still zero,
  \<open>startRecording\<close> returns \<open>NO_ERROR\<close>, sets the recording flag, and allocates a record heap
  and a record buffer of size zero; a \<open>startPreview\<close> that follows, on any driver, leaves
  that heap and that buffer as they are. The frame size is zero on the object the
  constructor leaves, and stays zero through a \<open>startPreview\<close> on a driver on which no node
  opens.
\<close>

theorem startRecording_before_preview:
  assumes "mPreviewFrameSize s = 0"
  shows "fst (startRecording s) = NO_ERROR \<and>
         mRecordRunning (snd (startRecording s)) \<and>
         mRecordHeap (snd (startRecording s)) = Some (MemoryHeapBase 0) \<and>
         mRecordBuffer (snd (startRecording s)) = Some (MemoryBase (MemoryHeapBase 0) 0 0) \<and>
         emitted s (snd (startRecording s)) = [New_MemoryHeapBase 0] \<and>
         mRecordHeap (snd (startPreview cam (snd (startRecording s)))) =
           Some (MemoryHeapBase 0) \<and>
         mRecordBuffer (snd (startPreview cam (snd (startRecording s)))) =
           Some (MemoryBase (MemoryHeapBase 0) 0 0) \<and>
         mPreviewFrameSize (CameraHardware_new cameraId c) = 0 \<and>
         ((\<forall>c node w h. sint (fst (Open cam c node w h)) < 0) \<longrightarrow>
            mPreviewFrameSize (snd (startPreview cam s)) = 0)"
proof -
  have z: "int32_div (0 * 3) 4 = 0"
    by (simp add: int32_div_def)
  have "startRecording s =
      (NO_ERROR, s\<lparr>mRecordHeap := Some (MemoryHeapBase 0),
         mRecordBuffer := Some (MemoryBase (MemoryHeapBase 0) 0 0), mRecordRunning := True,
         trace := trace s @ [New_MemoryHeapBase 0]\<rparr>)"
    using z by (simp add: startRecording_def assms emit_def Let_def)
  then show ?thesis
    using startPreview_no_node [of cam s]
    by (simp add: startPreview_record emitted_def CameraHardware_new_eq assms)
qed

theorem startRecording_before_preview_witness:
  "mPreviewFrameSize (CameraHardware_new 0 (0::nat)) = 0 \<and>
   fst (startRecording (CameraHardware_new 0 (0::nat))) = NO_ERROR \<and>
   mRecordRunning (snd (startRecording (CameraHardware_new 0 (0::nat)))) \<and>
   fst (startPreview test_camera (snd (startRecording (CameraHardware_new 0 0)))) = NO_ERROR \<and>
   mPreviewFrameSize (snd (startPreview test_camera (snd (startRecording (CameraHardware_new 0 0)))))
     = 153600 \<and>
   mRecordBuffer (snd (startPreview test_camera (snd (startRecording (CameraHardware_new 0 0)))))
     = Some (MemoryBase (MemoryHeapBase 0) 0 0) \<and>
   (\<forall>c node w h. sint (fst (Open dead_camera c node w h)) < 0) \<and>
   mPreviewFrameSize (snd (startPreview dead_camera (CameraHardware_new 0 ()))) = 0 \<and>
   mRecordBuffer (snd (startRecording (snd (startPreview dead_camera (CameraHardware_new 0 ())))))
     = Some (MemoryBase (MemoryHeapBase 0) 0 0)"
proof -
  have a: "mPreviewFrameSize (CameraHardware_new 0 (0::nat)) = 0"
    "mPreviewFrameSize (CameraHardware_new 0 ()) = 0"
    by (simp_all add: CameraHardware_new_eq)
  have b: "fst (startPreview test_camera (snd (startRecording (CameraHardware_new 0 0)))) = NO_ERROR"
    "mPreviewFrameSize (snd (startPreview test_camera (snd (startRecording (CameraHardware_new 0 0)))))
     = 153600"
    by (simp_all add: startPreview_def startRecording_def CameraHardware_new_eq test_camera_def
        eval_defs)
  have dead: "\<forall>c node w h. sint (fst (Open dead_camera c node w h)) < 0"
    by (simp add: dead_camera_def)
  from startRecording_before_preview [OF a(2), of dead_camera 0 "()"] dead
  have c: "mPreviewFrameSize (snd (startPreview dead_camera (CameraHardware_new 0 ()))) = 0"
    by blast
  from startRecording_before_preview [OF c, of dead_camera 0 "()"]
  have d: "mRecordBuffer (snd (startRecording (snd (startPreview dead_camera
      (CameraHardware_new 0 ()))))) = Some (MemoryBase (MemoryHeapBase 0) 0 0)"
    by blast
  from startRecording_before_preview [OF a(1), of test_camera 0 "0::nat"]
  have e: "fst (startRecording (CameraHardware_new 0 (0::nat))) = NO_ERROR"
    "mRecordRunning (snd (startRecording (CameraHardware_new 0 (0::nat))))"
    "mRecordBuffer (snd (startPreview test_camera (snd (startRecording (CameraHardware_new 0 0)))))
     = Some (MemoryBase (MemoryHeapBase 0) 0 0)"
    by blast+
  show ?thesis
    using a(1) b c d e dead by blast
qed

text \<open>
  The frame size is written as soon as a node has opened, before \<open>Init\<close> and
  \<open>StartStreaming\<close> can fail. On the object on which \<open>startPreview\<close> failed at \<open>Init\<close>, no
  \<open>startPreview\<close> has succeeded and no preview thread is held, and \<open>startRecording\<close>
  allocates a record buffer of 115200 bytes, not of zero.
\<close>

theorem startRecording_after_failed_preview_counterexample:
  "fst (startPreview init_fails_camera (CameraHardware_new 0 0)) = - 5 \<and>
   - 5 \<noteq> NO_ERROR \<and>
   \<not> mPreviewThread init_failed \<and>
   mPreviewFrameSize init_failed = 153600 \<and>
   fst (startRecording init_failed) = NO_ERROR \<and>
   mRecordRunning (snd (startRecording init_failed)) \<and>
   mRecordBuffer (snd (startRecording init_failed)) =
     Some (MemoryBase (MemoryHeapBase 115200) 0 115200) \<and>
   mRecordBuffer (snd (startRecording init_failed)) \<noteq>
     Some (MemoryBase (MemoryHeapBase 0) 0 0)"
  by (simp add: init_failed_eq startPreview_def startRecording_def CameraHardware_new_eq
      init_fails_camera_def int32_div_def signed_divide_int_def eval_defs)

section \<open>Still pictures\<close>

text \<open>
  Claim C1. On every driver on which no device node opens, whatever its state,
  \<open>pictureThread\<close> returns \<open>-1\<close>; \<open>takePicture\<close>, which calls it after \<open>stopPreview\<close> and
  drops its result, returns \<open>NO_ERROR\<close> all the same.
\<close>

theorem takePicture_drops_open_failure:
  assumes "\<forall>c node w h. sint (fst (Open cam c node w h)) < 0"
  shows "fst (pictureThread K cam (stopPreview cam s)) = - 1 \<and>
         fst (takePicture K cam s) = NO_ERROR \<and> NO_ERROR \<noteq> - 1"
proof -
  have "fst (pictureThread K cam s') = - 1" for s'
    using open_loop_all_fail [OF assms]
    by (simp add: pictureThread_def split_def Let_def)
  then show ?thesis
    by (simp add: takePicture_def split_def Let_def NO_ERROR_def)
qed

text \<open>The same on a fresh object, with the driver on which every \<open>Open\<close> returns \<open>-1\<close>.\<close>

theorem takePicture_drops_open_failure_witness:
  "(\<forall>c node w h. sint (fst (Open dead_camera c node w h)) < 0) \<and>
   fst (pictureThread android_msg dead_camera
          (stopPreview dead_camera (CameraHardware_new 0 ()))) = - 1 \<and>
   fst (takePicture android_msg dead_camera (CameraHardware_new 0 ())) = NO_ERROR \<and>
   NO_ERROR \<noteq> - 1"
proof -
  have dead: "\<forall>c node w h. sint (fst (Open dead_camera c node w h)) < 0"
    by (simp add: dead_camera_def)
  from takePicture_drops_open_failure [OF dead, of android_msg "CameraHardware_new 0 ()"] dead
  show ?thesis
    by simp
qed

lemma pictureThread_unfold:
  assumes "getPreviewSize (mParameters s) = (width, height)"
    and "s0 = (if mMsgEnabled s AND CAMERA_MSG_SHUTTER K \<noteq> 0
               then emit (NotifyFn (CAMERA_MSG_SHUTTER K) 0 0) s else s)"
    and "open_loop cam width height 0 s0 = (ret, s1)"
    and "Init cam (camera s1) = (ri, ci)"
    and "StartStreaming cam ci = (rs, cs)"
    and "GrabJpegFrame cam cs = (jpeg, cj)"
  shows "pictureThread K cam s =
     (if sint ret < 0 then (- 1, s1)
      else if mMsgEnabled s1 AND CAMERA_MSG_COMPRESSED_IMAGE K \<noteq> 0 then
        (NO_ERROR, s1\<lparr>camera := Close cam (StopStreaming cam (Uninit cam cj)),
           trace := trace s1 @ [Cam_Init, Cam_StartStreaming, Cam_GrabJpegFrame,
             DataFn (CAMERA_MSG_COMPRESSED_IMAGE K) jpeg, Cam_Uninit, Cam_StopStreaming,
             Cam_Close]\<rparr>)
      else
        (NO_ERROR, s1\<lparr>camera := Close cam (StopStreaming cam (Uninit cam cs)),
           trace := trace s1 @ [Cam_Init, Cam_StartStreaming, Cam_Uninit, Cam_StopStreaming,
             Cam_Close]\<rparr>))"
proof -
  have size: "getPreviewSize (mParameters s0) = (width, height)"
    using assms(1) by (simp add: assms(2) emit_def)
  show ?thesis
    unfolding pictureThread_def assms(2) [symmetric]
    by (simp add: Let_def split_def size assms(3-6) camera_defs)
qed

text \<open>
  Claim C3, as amended. The still-capture cycle calls the notify callback with the shutter
  kind if that kind is enabled, then probes the device nodes in order at the configured
  preview size (the picture size is read and then overwritten by the preview size), up to
  the first node that opens: the \<open>m - 1\<close> probes before the last one failed. If the last
  probe opened its node, the cycle initialises the device and starts streaming, calls the
  data callback with the compressed-image kind and the frame that \<open>GrabJpegFrame\<close> returns
  at that point if that kind is enabled, tears the device down (uninitialise, stop
  streaming, close) and returns \<open>NO_ERROR\<close>. Otherwise all ten nodes were probed and failed,
  and the cycle returns \<open>-1\<close> with nothing after the probes.
\<close>

theorem pictureThread_cycle:
  assumes "getPreviewSize (mParameters s) = (width, height)"
  shows "\<exists>m. 0 < m \<and> m \<le> 10 \<and>
     (\<forall>j<m - 1. sint (probe_result cam width height (camera s) j) < 0) \<and>
     (if 0 \<le> sint (probe_result cam width height (camera s) (m - 1)) then
        fst (pictureThread K cam s) = NO_ERROR \<and>
        emitted s (snd (pictureThread K cam s)) =
          (if msgTypeEnabled (CAMERA_MSG_SHUTTER K) s
           then [NotifyFn (CAMERA_MSG_SHUTTER K) 0 0] else []) @
          map (\<lambda>i. Cam_Open (devnode i) width height) [0..<m] @
          [Cam_Init, Cam_StartStreaming] @
          (if msgTypeEnabled (CAMERA_MSG_COMPRESSED_IMAGE K) s
           then [Cam_GrabJpegFrame,
                 DataFn (CAMERA_MSG_COMPRESSED_IMAGE K)
                   (fst (GrabJpegFrame cam (snd (StartStreaming cam
                      (snd (Init cam (probed cam width height (camera s) m)))))))]
           else []) @
          [Cam_Uninit, Cam_StopStreaming, Cam_Close]
      else
        m = 10 \<and> fst (pictureThread K cam s) = - 1 \<and>
        emitted s (snd (pictureThread K cam s)) =
          (if msgTypeEnabled (CAMERA_MSG_SHUTTER K) s
           then [NotifyFn (CAMERA_MSG_SHUTTER K) 0 0] else []) @
          map (\<lambda>i. Cam_Open (devnode i) width height) [0..<10])"
proof -
  define s0 where "s0 = (if mMsgEnabled s AND CAMERA_MSG_SHUTTER K \<noteq> 0
               then emit (NotifyFn (CAMERA_MSG_SHUTTER K) 0 0) s else s)"
  have c0: "camera s0 = probed cam width height (camera s) 0"
    by (simp add: s0_def emit_def)
  from open_loop_probes [of 0 s0 cam width height "camera s", OF _ c0]
  obtain m where m: "0 < m" "m \<le> 10"
    and r: "open_loop cam width height 0 s0 =
       (probe_result cam width height (camera s) (m - 1),
        s0\<lparr>camera := probed cam width height (camera s) m,
          trace := trace s0 @ map (\<lambda>j. Cam_Open (devnode j) width height) [0..<m]\<rparr>)"
    and before: "\<forall>j. 0 \<le> j \<and> j < m - 1 \<longrightarrow> sint (probe_result cam width height (camera s) j) < 0"
    and fl: "sint (probe_result cam width height (camera s) (m - 1)) < 0 \<longrightarrow> m = 10"
    by auto
  let ?ret = "probe_result cam width height (camera s) (m - 1)"
  let ?s1 = "s0\<lparr>camera := probed cam width height (camera s) m,
          trace := trace s0 @ map (\<lambda>j. Cam_Open (devnode j) width height) [0..<m]\<rparr>"
  let ?ci = "snd (Init cam (probed cam width height (camera s) m))"
  let ?cs = "snd (StartStreaming cam ?ci)"
  have i: "Init cam (camera ?s1) = (fst (Init cam (probed cam width height (camera s) m)), ?ci)"
    by simp
  have st: "StartStreaming cam ?ci = (fst (StartStreaming cam ?ci), ?cs)"
    by simp
  have j: "GrabJpegFrame cam ?cs = (fst (GrabJpegFrame cam ?cs), snd (GrabJpegFrame cam ?cs))"
    by simp
  note u = pictureThread_unfold [OF assms s0_def r i st j]
  have t0: "trace s0 = trace s @
      (if msgTypeEnabled (CAMERA_MSG_SHUTTER K) s then [NotifyFn (CAMERA_MSG_SHUTTER K) 0 0] else [])"
    by (simp add: s0_def msgTypeEnabled_def emit_def)
  have en: "mMsgEnabled s0 = mMsgEnabled s"
    by (simp add: s0_def emit_def)
  have all: "\<forall>j<m - 1. sint (probe_result cam width height (camera s) j) < 0"
    using before by simp
  show ?thesis
  proof (cases "0 \<le> sint ?ret")
    case True
    then have nf: "\<not> sint ?ret < 0" by simp
    have "fst (pictureThread K cam s) = NO_ERROR \<and>
        emitted s (snd (pictureThread K cam s)) =
          (if msgTypeEnabled (CAMERA_MSG_SHUTTER K) s
           then [NotifyFn (CAMERA_MSG_SHUTTER K) 0 0] else []) @
          map (\<lambda>i. Cam_Open (devnode i) width height) [0..<m] @
          [Cam_Init, Cam_StartStreaming] @
          (if msgTypeEnabled (CAMERA_MSG_COMPRESSED_IMAGE K) s
           then [Cam_GrabJpegFrame,
                 DataFn (CAMERA_MSG_COMPRESSED_IMAGE K) (fst (GrabJpegFrame cam ?cs))]
           else []) @
          [Cam_Uninit, Cam_StopStreaming, Cam_Close]"
      unfolding u using nf
      by (simp add: en emitted_def t0 msgTypeEnabled_def)
    with True m all show ?thesis
      by (intro exI [of _ m]) simp
  next
    case False
    then have neg: "sint ?ret < 0" by simp
    with fl have m10: "m = 10" by simp
    have "fst (pictureThread K cam s) = - 1 \<and>
        emitted s (snd (pictureThread K cam s)) =
          (if msgTypeEnabled (CAMERA_MSG_SHUTTER K) s
           then [NotifyFn (CAMERA_MSG_SHUTTER K) 0 0] else []) @
          map (\<lambda>i. Cam_Open (devnode i) width height) [0..<m]"
      unfolding u using neg by (simp add: emitted_def t0)
    with False m all m10 show ?thesis
      by (intro exI [of _ m]) simp
  qed
qed

text \<open>
  On the test driver the third node is the first that opens; on the driver on which no
  node opens all ten are probed.
\<close>

lemma probe_result_test:
  "probe_result test_camera width height c j = (if devnode j = ''/dev/video2'' then 3 else - 1)"
  by (simp add: probe_result_def test_camera_def)

lemma devnode_values:
  "devnode 0 = ''/dev/video0''" "devnode (Suc 0) = ''/dev/video1''"
  "devnode 2 = ''/dev/video2''"
  by (simp_all add: devnode_def decimal.simps)

theorem pictureThread_cycle_witness:
  "getPreviewSize (mParameters picture_640) = (320, 240) \<and>
   sint (probe_result test_camera 320 240 (camera picture_640) 0) < 0 \<and>
   sint (probe_result test_camera 320 240 (camera picture_640) 1) < 0 \<and>
   0 \<le> sint (probe_result test_camera 320 240 (camera picture_640) 2) \<and>
   fst (pictureThread android_msg test_camera picture_640) = NO_ERROR \<and>
   emitted picture_640 (snd (pictureThread android_msg test_camera picture_640)) =
     [NotifyFn 2 0 0, Cam_Open ''/dev/video0'' 320 240, Cam_Open ''/dev/video1'' 320 240,
      Cam_Open ''/dev/video2'' 320 240, Cam_Init, Cam_StartStreaming, Cam_GrabJpegFrame,
      DataFn 0x100 (Some (MemoryBase (MemoryHeapBase 4096) 0 4096)),
      Cam_Uninit, Cam_StopStreaming, Cam_Close] \<and>
   sint (probe_result dead_camera 320 240 () 9) < 0 \<and>
   fst (pictureThread android_msg dead_camera (CameraHardware_new 0 ())) = - 1 \<and>
   emitted (CameraHardware_new 0 ())
     (snd (pictureThread android_msg dead_camera (CameraHardware_new 0 ()))) =
     map (\<lambda>i. Cam_Open (devnode i) 320 240) [0..<10]"
proof -
  let ?c = "camera picture_640"
  have size: "getPreviewSize (mParameters picture_640) = (320, 240)"
    by (simp add: picture_640_eq getPreviewSize_def)
  have r0: "sint (probe_result test_camera 320 240 ?c 0) < 0"
    and r1: "sint (probe_result test_camera 320 240 ?c 1) < 0"
    and r2: "0 \<le> sint (probe_result test_camera 320 240 ?c 2)"
    by (simp_all add: probe_result_test devnode_values)
  have en: "msgTypeEnabled 2 picture_640" "msgTypeEnabled 256 picture_640"
    by (simp_all add: picture_640_eq msgTypeEnabled_def)
  from pictureThread_cycle [OF size, of test_camera android_msg]
  obtain m where m: "0 < m" "m \<le> 10"
    and before: "\<forall>j<m - 1. sint (probe_result test_camera 320 240 ?c j) < 0"
    and cyc: "if 0 \<le> sint (probe_result test_camera 320 240 ?c (m - 1)) then
        fst (pictureThread android_msg test_camera picture_640) = NO_ERROR \<and>
        emitted picture_640 (snd (pictureThread android_msg test_camera picture_640)) =
          (if msgTypeEnabled (CAMERA_MSG_SHUTTER android_msg) picture_640
           then [NotifyFn (CAMERA_MSG_SHUTTER android_msg) 0 0] else []) @
          map (\<lambda>i. Cam_Open (devnode i) 320 240) [0..<m] @
          [Cam_Init, Cam_StartStreaming] @
          (if msgTypeEnabled (CAMERA_MSG_COMPRESSED_IMAGE android_msg) picture_640
           then [Cam_GrabJpegFrame,
                 DataFn (CAMERA_MSG_COMPRESSED_IMAGE android_msg)
                   (fst (GrabJpegFrame test_camera (snd (StartStreaming test_camera
                      (snd (Init test_camera (probed test_camera 320 240 ?c m)))))))]
           else []) @
          [Cam_Uninit, Cam_StopStreaming, Cam_Close]
      else
        m = 10 \<and> fst (pictureThread android_msg test_camera picture_640) = - 1 \<and>
        emitted picture_640 (snd (pictureThread android_msg test_camera picture_640)) =
          (if msgTypeEnabled (CAMERA_MSG_SHUTTER android_msg) picture_640
           then [NotifyFn (CAMERA_MSG_SHUTTER android_msg) 0 0] else []) @
          map (\<lambda>i. Cam_Open (devnode i) 320 240) [0..<10]"
    by blast
  have "\<not> 2 < m - 1"
    using before r2 by auto
  then have "m = 1 \<or> m = 2 \<or> m = 3"
    using m by arith
  then have m3: "m = 3"
  proof (elim disjE)
    assume "m = 1"
    with cyc r0 show ?thesis by simp
  next
    assume "m = 2"
    with cyc r1 show ?thesis by simp
  qed
  have upt3: "[0..<3] = [0, Suc 0, 2]"
    by (simp add: upt_conv_Cons)
  have jpeg: "fst (GrabJpegFrame test_camera c) = Some (MemoryBase (MemoryHeapBase 4096) 0 4096)" for c
    by (simp add: test_camera_def)
  from cyc r2 have live:
    "fst (pictureThread android_msg test_camera picture_640) = NO_ERROR"
    "emitted picture_640 (snd (pictureThread android_msg test_camera picture_640)) =
     [NotifyFn 2 0 0, Cam_Open ''/dev/video0'' 320 240, Cam_Open ''/dev/video1'' 320 240,
      Cam_Open ''/dev/video2'' 320 240, Cam_Init, Cam_StartStreaming, Cam_GrabJpegFrame,
      DataFn 0x100 (Some (MemoryBase (MemoryHeapBase 4096) 0 4096)),
      Cam_Uninit, Cam_StopStreaming, Cam_Close]"
    by (simp_all add: m3 en upt3 devnode_values jpeg android_msg_def)
  let ?d = "CameraHardware_new 0 ()"
  have dsize: "getPreviewSize (mParameters ?d) = (320, 240)"
    by (simp add: CameraHardware_new_eq getPreviewSize_def)
  have dead: "sint (probe_result dead_camera 320 240 c j) < 0" for c j
    by (simp add: probe_result_def dead_camera_def)
  have off: "\<not> msgTypeEnabled (CAMERA_MSG_SHUTTER android_msg) ?d"
    by (simp add: CameraHardware_new_eq msgTypeEnabled_def)
  have neg: "(0 \<le> sint (probe_result dead_camera 320 240 c j)) = False" for c j
    using dead [of c j] by simp
  from pictureThread_cycle [OF dsize, of dead_camera android_msg]
  have gone: "fst (pictureThread android_msg dead_camera ?d) = - 1 \<and>
     emitted ?d (snd (pictureThread android_msg dead_camera ?d)) =
       map (\<lambda>i. Cam_Open (devnode i) 320 240) [0..<10]"
    using off by (auto simp: neg)
  show ?thesis
    using size r0 r1 r2 live gone dead [of "()" 9] by blast
qed

text \<open>
  The node is not opened at the picture size: with pictures configured at 640 by 480 and
  the preview at 320 by 240, every \<open>Open\<close> of the cycle asks for 320 by 240.
\<close>

theorem pictureThread_resolution_counterexample:
  "getPictureSize (getParameters picture_640) = (640, 480) \<and>
   getPreviewSize (getParameters picture_640) = (320, 240) \<and>
   emitted picture_640 (snd (pictureThread android_msg test_camera picture_640)) =
     [NotifyFn (CAMERA_MSG_SHUTTER android_msg) 0 0,
      Cam_Open ''/dev/video0'' 320 240, Cam_Open ''/dev/video1'' 320 240,
      Cam_Open ''/dev/video2'' 320 240, Cam_Init, Cam_StartStreaming, Cam_GrabJpegFrame,
      DataFn (CAMERA_MSG_COMPRESSED_IMAGE android_msg)
        (Some (MemoryBase (MemoryHeapBase 4096) 0 4096)),
      Cam_Uninit, Cam_StopStreaming, Cam_Close] \<and>
   Cam_Open ''/dev/video2'' 640 480
     \<notin> set (emitted picture_640 (snd (pictureThread android_msg test_camera picture_640)))"
  by (simp add: picture_640_eq pictureThread_def getParameters_def emitted_def test_camera_def
      eval_defs)

section \<open>Parameters\<close>

text \<open>Without a format entry to compare, no status is returned.\<close>

lemma setParameters_null_format:
  "getPreviewFormat params = None \<Longrightarrow> setParameters params s = None"
  "getPreviewFormat params = Some ''yuv422sp'' \<Longrightarrow> getPictureFormat params = None \<Longrightarrow>
   setParameters params s = None"
  by (simp_all add: setParameters_def)



lemma decimal_values:
  "decimal 8000 = ''8000''" "decimal 10000 = ''10000''" "decimal 15000 = ''15000''"
  "decimal 20000 = ''20000''" "decimal 24000 = ''24000''" "decimal 25000 = ''25000''"
  "decimal 30000 = ''30000''"
  by (simp_all add: decimal.simps)

lemma supportedFpsRanges_eq: "supportedFpsRanges = show_fps_ranges spec_fps_ranges"
  by (simp add: supportedFpsRanges_def spec_fps_ranges_def show_fps_range_def decimal_values)

text \<open>
  Claim C7. With the two supported formats, and whatever the sizes and the frame rate,
  \<open>setParameters\<close> succeeds, and \<open>getParameters\<close> afterwards returns the preview size, the
  picture size and the frame rate of the argument, and under the key of the supported
  frame-rate ranges the fixed string, which is the list of eleven (min, max) pairs of the
  specification written out.
\<close>

theorem setParameters_getParameters:
  assumes "getPreviewFormat params = Some ''yuv422sp''"
    and "getPictureFormat params = Some ''jpeg''"
  shows "\<exists>s'. setParameters params s = Some (NO_ERROR, s') \<and>
           getPreviewSize (getParameters s') = getPreviewSize params \<and>
           getPictureSize (getParameters s') = getPictureSize params \<and>
           getPreviewFrameRate (getParameters s') = getPreviewFrameRate params \<and>
           get_entry KEY_SUPPORTED_PREVIEW_FPS_RANGE (getParameters s') =
             Some supportedFpsRanges \<and>
           supportedFpsRanges = show_fps_ranges spec_fps_ranges \<and>
           length spec_fps_ranges = 11 \<and>
           list_all (\<lambda>r. fst r \<le> snd r) spec_fps_ranges"
proof -
  have "setParameters params s =
      Some (NO_ERROR, s\<lparr>mParameters :=
         set_entry KEY_SUPPORTED_PREVIEW_FPS_RANGE supportedFpsRanges
           (setPreviewSize (fst (getPreviewSize params)) (snd (getPreviewSize params)) params)\<rparr>)"
    using assms by (simp add: setParameters_def split_def Let_def)
  then show ?thesis
    by (simp add: getParameters_def params_defs supportedFpsRanges_eq [symmetric])
       (simp add: spec_fps_ranges_def)
qed

theorem setParameters_getParameters_witness:
  "getPreviewFormat (setPreviewSize 640 480 (setPreviewFrameRate 15
      (getParameters (CameraHardware_new 0 ())))) = Some ''yuv422sp'' \<and>
   getPictureFormat (setPreviewSize 640 480 (setPreviewFrameRate 15
      (getParameters (CameraHardware_new 0 ())))) = Some ''jpeg'' \<and>
   (\<exists>s'. setParameters (setPreviewSize 640 480 (setPreviewFrameRate 15
        (getParameters (CameraHardware_new 0 ())))) (CameraHardware_new 0 ()) =
        Some (NO_ERROR, s') \<and>
      getPreviewSize (getParameters s') = (640, 480) \<and>
      getPictureSize (getParameters s') = (320, 240) \<and>
      getPreviewFrameRate (getParameters s') = 15 \<and>
      get_entry KEY_SUPPORTED_PREVIEW_FPS_RANGE (getParameters s') = Some supportedFpsRanges)"
proof -
  let ?p = "setPreviewSize 640 480 (setPreviewFrameRate 15 (getParameters (CameraHardware_new 0 ())))"
  have a: "getPreviewFormat ?p = Some ''yuv422sp''" and b: "getPictureFormat ?p = Some ''jpeg''"
    by (simp_all add: params_defs getParameters_def CameraHardware_new_eq)
  have c: "getPreviewSize ?p = (640, 480)" "getPictureSize ?p = (320, 240)"
    "getPreviewFrameRate ?p = 15"
    by (simp_all add: params_defs getParameters_def CameraHardware_new_eq)
  from setParameters_getParameters [OF a b, of "CameraHardware_new 0 ()"] a b c
  show ?thesis
    by auto
qed

section \<open>Pointers the preview loop dereferences\<close>

text \<open>
  \<open>previewThread\<close> calls \<open>mHeap->getBase()\<close> when the stopped flag is clear, and
  \<open>mRecordHeap->getBase()\<close> when a video frame is due. The preview loop runs only while
  \<open>mPreviewThread\<close> is held, and a video frame is due only while recording is on. The
  constructor establishes \<open>heaps_allocated\<close> and every member function keeps it, so neither
  pointer is null where it is dereferenced, and the functions above have no branch for it.
\<close>

lemma heaps_allocated_new: "heaps_allocated (CameraHardware_new cameraId c)"
  by (simp add: heaps_allocated_def CameraHardware_new_eq)

lemma heaps_allocated_startPreview:
  assumes "heaps_allocated s"
  shows "heaps_allocated (snd (startPreview cam s))"
proof (cases "mPreviewThread s")
  case True
  with assms show ?thesis
    by (simp add: startPreview_running)
next
  case False
  obtain width height where size: "getPreviewSize (mParameters s) = (width, height)"
    by (cases "getPreviewSize (mParameters s)")
  obtain ret s1 where r: "open_loop cam width height 0 s = (ret, s1)"
    by (cases "open_loop cam width height 0 s")
  obtain ri ci where i: "Init cam (camera s1) = (ri, ci)"
    by (cases "Init cam (camera s1)")
  obtain rs cs where st: "StartStreaming cam ci = (rs, cs)"
    by (cases "StartStreaming cam ci")
  have s1: "mPreviewThread s1 = mPreviewThread s" "mRecordRunning s1 = mRecordRunning s"
    "mRecordHeap s1 = mRecordHeap s" "mRecordBuffer s1 = mRecordBuffer s"
    "mHeap s1 = mHeap s" "mBuffer s1 = mBuffer s"
    using open_loop_fields [of cam width height s] by (simp_all add: r)
  show ?thesis
    using assms False
    unfolding startPreview_unfold [OF False size r i st]
    by (simp add: heaps_allocated_def s1)
qed

lemma heaps_allocated_stopPreview:
  "heaps_allocated s \<Longrightarrow> heaps_allocated (stopPreview cam s)"
  by (cases "mPreviewThread s")
     (simp_all add: stopPreview_running stopPreview_idle heaps_allocated_def)

lemma heaps_allocated_startRecording: "heaps_allocated s \<Longrightarrow> heaps_allocated (snd (startRecording s))"
  by (simp add: startRecording_def heaps_allocated_def emit_def Let_def)

lemma heaps_allocated_stopRecording: "heaps_allocated s \<Longrightarrow> heaps_allocated (stopRecording s)"
  by (simp add: stopRecording_def heaps_allocated_def)

lemma heaps_allocated_msgType:
  "heaps_allocated s \<Longrightarrow> heaps_allocated (enableMsgType msgType s)"
  "heaps_allocated s \<Longrightarrow> heaps_allocated (disableMsgType msgType s)"
  by (simp_all add: enableMsgType_def disableMsgType_def heaps_allocated_def)

lemma heaps_allocated_setParameters:
  "heaps_allocated s \<Longrightarrow> setParameters params s = Some (status, s') \<Longrightarrow> heaps_allocated s'"
  by (auto simp: setParameters_def heaps_allocated_def split_def Let_def
      split: option.splits if_splits)

lemma heaps_allocated_previewThread:
  "heaps_allocated s \<Longrightarrow> heaps_allocated (snd (previewThread K cam timeStamp s))"
  by (simp add: previewThread_def heaps_allocated_def split_def Let_def camera_defs)

lemma heaps_allocated_pictureThread:
  assumes "heaps_allocated s"
  shows "heaps_allocated (snd (pictureThread K cam s))"
proof -
  obtain width height where size: "getPreviewSize (mParameters s) = (width, height)"
    by (cases "getPreviewSize (mParameters s)")
  define s0 where "s0 = (if mMsgEnabled s AND CAMERA_MSG_SHUTTER K \<noteq> 0
               then emit (NotifyFn (CAMERA_MSG_SHUTTER K) 0 0) s else s)"
  obtain ret s1 where r: "open_loop cam width height 0 s0 = (ret, s1)"
    by (cases "open_loop cam width height 0 s0")
  obtain ri ci where i: "Init cam (camera s1) = (ri, ci)"
    by (cases "Init cam (camera s1)")
  obtain rs cs where st: "StartStreaming cam ci = (rs, cs)"
    by (cases "StartStreaming cam ci")
  obtain jpeg cj where j: "GrabJpegFrame cam cs = (jpeg, cj)"
    by (cases "GrabJpegFrame cam cs")
  have "heaps_allocated s0"
    using assms by (simp add: s0_def heaps_allocated_def emit_def)
  then have "heaps_allocated s1"
    using open_loop_fields [of cam width height s0] by (simp add: r heaps_allocated_def)
  then show ?thesis
    unfolding pictureThread_unfold [OF size s0_def r i st j]
    by (simp add: heaps_allocated_def)
qed

lemma heaps_allocated_takePicture:
  "heaps_allocated s \<Longrightarrow> heaps_allocated (snd (takePicture K cam s))"
  using heaps_allocated_pictureThread [OF heaps_allocated_stopPreview, of s K cam cam]
  by (simp add: takePicture_def split_def Let_def)

end
